theory Spec2Isabelle
  imports Main
begin

text \<open>
  A model of the upload-triggered flashcard pipeline (the storage trigger
  \<^verbatim>\<open>onFileUpload\<close>) and of the export of the deck page (\<^verbatim>\<open>handleExport\<close>).

  The trigger talks to a bucket, a PDF extractor, an HTTP client, a clock and a document
  database. Each is a function given to the model (record \<open>env\<close>); a run of the trigger is
  the list of what it does to them, in order (type \<open>event\<close>). Every \<^verbatim>\<open>return\<close> and every
  \<^verbatim>\<open>throw\<close> of the source is a branch of the model.
\<close>

section \<open>JavaScript strings and values\<close>

text \<open>
  Strings of the source are modelled as \<^typ>\<open>string\<close>: one \<^typ>\<open>char\<close> per code unit, so the
  model covers the 8-bit range of code units. In this range \<^verbatim>\<open>toLowerCase\<close> maps the letters
  A to Z and the letters U+00C0 to U+00DE (U+00D7, the multiplication sign, apart).
\<close>

abbreviation DQUOTE :: char where "DQUOTE \<equiv> CHR 0x22"
abbreviation NEWLINE :: char where "NEWLINE \<equiv> CHR 0x0A"
abbreviation TAB :: char where "TAB \<equiv> CHR 0x09"

text \<open>\<^verbatim>\<open>s.split(c)\<close> for a one-character separator: never the empty list.\<close>

fun split :: "char \<Rightarrow> string \<Rightarrow> string list" where
  "split c [] = [[]]"
| "split c (x # xs) =
     (if x = c then [] # split c xs
      else (let r = split c xs in (x # hd r) # tl r))"

text \<open>\<^verbatim>\<open>parts.join(sep)\<close>.\<close>

fun join :: "string \<Rightarrow> string list \<Rightarrow> string" where
  "join sep [] = []"
| "join sep [x] = x"
| "join sep (x # y # ys) = x @ sep @ join sep (y # ys)"

definition startsWith :: "string \<Rightarrow> string \<Rightarrow> bool" where
  "startsWith s p = (take (length p) s = p)"

definition upperCaseLetters :: string where
  "upperCaseLetters =
     ''ABCDEFGHIJKLMNOPQRSTUVWXYZ'' @
     [CHR 0xC0, CHR 0xC1, CHR 0xC2, CHR 0xC3, CHR 0xC4, CHR 0xC5, CHR 0xC6, CHR 0xC7,
      CHR 0xC8, CHR 0xC9, CHR 0xCA, CHR 0xCB, CHR 0xCC, CHR 0xCD, CHR 0xCE, CHR 0xCF,
      CHR 0xD0, CHR 0xD1, CHR 0xD2, CHR 0xD3, CHR 0xD4, CHR 0xD5, CHR 0xD6, CHR 0xD8,
      CHR 0xD9, CHR 0xDA, CHR 0xDB, CHR 0xDC, CHR 0xDD, CHR 0xDE]"

definition lowerCaseLetters :: string where
  "lowerCaseLetters =
     ''abcdefghijklmnopqrstuvwxyz'' @
     [CHR 0xE0, CHR 0xE1, CHR 0xE2, CHR 0xE3, CHR 0xE4, CHR 0xE5, CHR 0xE6, CHR 0xE7,
      CHR 0xE8, CHR 0xE9, CHR 0xEA, CHR 0xEB, CHR 0xEC, CHR 0xED, CHR 0xEE, CHR 0xEF,
      CHR 0xF0, CHR 0xF1, CHR 0xF2, CHR 0xF3, CHR 0xF4, CHR 0xF5, CHR 0xF6, CHR 0xF8,
      CHR 0xF9, CHR 0xFA, CHR 0xFB, CHR 0xFC, CHR 0xFD, CHR 0xFE]"

definition toLowerChar :: "char \<Rightarrow> char" where
  "toLowerChar c =
     (case map_of (zip upperCaseLetters lowerCaseLetters) c of
        Some l \<Rightarrow> l
      | None \<Rightarrow> c)"

definition toLowerCase :: "string \<Rightarrow> string" where
  "toLowerCase s = map toLowerChar s"

text \<open>\<^verbatim>\<open>s.lastIndexOf(c)\<close>: the last position of \<open>c\<close>, or \<open>-1\<close>.\<close>

definition lastIndexOf :: "string \<Rightarrow> char \<Rightarrow> int" where
  "lastIndexOf s c =
     (if c \<in> set s then int (length s - 1 - length (takeWhile (\<lambda>x. x \<noteq> c) (rev s)))
      else - 1)"

text \<open>\<^verbatim>\<open>s.substring(k)\<close>: a negative start counts as 0, a start past the end gives the
  empty string.\<close>

definition substring :: "string \<Rightarrow> int \<Rightarrow> string" where
  "substring s k = drop (nat k) s"

text \<open>White space as \<^verbatim>\<open>trim\<close> and \<^verbatim>\<open>parseInt\<close> skip it (the code units below 256).\<close>

definition isWhiteSpace :: "char \<Rightarrow> bool" where
  "isWhiteSpace c = (c \<in> set [CHR 0x09, CHR 0x0A, CHR 0x0B, CHR 0x0C, CHR 0x0D, CHR 0x20, CHR 0xA0])"

definition trimStart :: "string \<Rightarrow> string" where
  "trimStart s = dropWhile isWhiteSpace s"

definition trim :: "string \<Rightarrow> string" where
  "trim s = rev (dropWhile isWhiteSpace (rev (dropWhile isWhiteSpace s)))"

text \<open>Decimal rendering of a non-negative integer, as a template literal prints it.\<close>

function showNat :: "nat \<Rightarrow> string" where
  "showNat n =
     (if n < 10 then [''0123456789'' ! n]
      else showNat (n div 10) @ [''0123456789'' ! (n mod 10)])"
  by pat_completeness auto
termination
  by (relation "measure id") auto

declare showNat.simps [simp del]

text \<open>
  \<^verbatim>\<open>parseInt(s)\<close> without a radix: leading white space is skipped, then an optional sign, then
  an optional \<^verbatim>\<open>0x\<close>/\<^verbatim>\<open>0X\<close> prefix selecting radix 16; the longest run of digits is read.
  \<open>None\<close> stands for \<^verbatim>\<open>NaN\<close>. The result is the exact integer: the source compares it with
  constants below \<open>2^53\<close>, and rounding to a double is monotone, so the comparison is the same.
\<close>

fun indexOf :: "'a \<Rightarrow> 'a list \<Rightarrow> nat option" where
  "indexOf a [] = None"
| "indexOf a (x # xs) = (if x = a then Some 0 else map_option Suc (indexOf a xs))"

definition digitValue :: "nat \<Rightarrow> char \<Rightarrow> nat option" where
  "digitValue radix c =
     (case indexOf (toLowerChar c) ''0123456789abcdef'' of
        Some d \<Rightarrow> if d < radix then Some d else None
      | None \<Rightarrow> None)"

fun readDigits :: "nat \<Rightarrow> nat \<Rightarrow> string \<Rightarrow> nat" where
  "readDigits radix acc [] = acc"
| "readDigits radix acc (c # cs) =
     (case digitValue radix c of
        Some d \<Rightarrow> readDigits radix (acc * radix + d) cs
      | None \<Rightarrow> acc)"

definition parseDigits :: "nat \<Rightarrow> string \<Rightarrow> nat option" where
  "parseDigits radix s =
     (case s of
        [] \<Rightarrow> None
      | c # cs \<Rightarrow> (if digitValue radix c = None then None else Some (readDigits radix 0 s)))"

definition parseInt :: "string \<Rightarrow> int option" where
  "parseInt str =
     (let s = trimStart str;
          neg = (s \<noteq> [] \<and> hd s = CHR ''-'');
          s1 = (if s \<noteq> [] \<and> (hd s = CHR ''+'' \<or> hd s = CHR ''-'') then tl s else s);
          hex = (take 2 s1 = ''0x'' \<or> take 2 s1 = ''0X'');
          r = (if hex then parseDigits 16 (drop 2 s1) else parseDigits 10 s1)
      in map_option (\<lambda>n. if neg then - int n else int n) r)"

text \<open>
  Values of type \<^verbatim>\<open>any\<close>: what a parsed response body can hold. Numbers are integers
  here; the source only tests numbers for truthiness and stores them.
  An object is an association list whose first binding of a key is the one read.
\<close>

datatype jsval =
    JUndefined
  | JNull
  | JBool bool
  | JNum int
  | JStr string
  | JArr "jsval list"
  | JObj "(string \<times> jsval) list"

fun truthy :: "jsval \<Rightarrow> bool" where
  "truthy JUndefined = False"
| "truthy JNull = False"
| "truthy (JBool b) = b"
| "truthy (JNum n) = (n \<noteq> 0)"
| "truthy (JStr s) = (s \<noteq> [])"
| "truthy (JArr xs) = True"
| "truthy (JObj kvs) = True"

text \<open>\<^verbatim>\<open>a || d\<close> on values.\<close>

definition orElse :: "jsval \<Rightarrow> jsval \<Rightarrow> jsval" where
  "orElse a d = (if truthy a then a else d)"

text \<open>\<^verbatim>\<open>s || d\<close> on a string that may be \<^verbatim>\<open>undefined\<close>.\<close>

definition strOr :: "string option \<Rightarrow> string \<Rightarrow> string" where
  "strOr a d = (case a of Some s \<Rightarrow> if s \<noteq> [] then s else d | None \<Rightarrow> d)"

text \<open>
  What a \<^verbatim>\<open>throw\<close> carries: an \<^verbatim>\<open>Error\<close> instance with its message, or any other value.
\<close>

datatype thrown = ErrorInstance string | OtherValue

text \<open>
  Property read \<^verbatim>\<open>v.k\<close>. Reading a property of \<^verbatim>\<open>undefined\<close> or \<^verbatim>\<open>null\<close> throws a
  \<^verbatim>\<open>TypeError\<close> (the message is the engine's). Strings and arrays have \<^verbatim>\<open>length\<close>; no
  other built-in property is read by the source.
\<close>

definition typeError :: "string \<Rightarrow> string \<Rightarrow> thrown" where
  "typeError what k =
     ErrorInstance (''Cannot read properties of '' @ what @ '' (reading '' @ [CHR 0x27] @ k @ [CHR 0x27] @ '')'')"

fun getProp :: "jsval \<Rightarrow> string \<Rightarrow> thrown + jsval" where
  "getProp JUndefined k = Inl (typeError ''undefined'' k)"
| "getProp JNull k = Inl (typeError ''null'' k)"
| "getProp (JObj kvs) k = Inr (case map_of kvs k of Some v \<Rightarrow> v | None \<Rightarrow> JUndefined)"
| "getProp (JArr xs) k = Inr (if k = ''length'' then JNum (int (length xs)) else JUndefined)"
| "getProp (JStr s) k = Inr (if k = ''length'' then JNum (int (length s)) else JUndefined)"
| "getProp (JBool b) k = Inr JUndefined"
| "getProp (JNum n) k = Inr JUndefined"


text \<open>Reads of a value already known not to be \<^verbatim>\<open>undefined\<close> or \<^verbatim>\<open>null\<close>: these cannot throw.\<close>

definition readProp :: "jsval \<Rightarrow> string \<Rightarrow> jsval" where
  "readProp v k = (case getProp v k of Inr x \<Rightarrow> x | Inl e \<Rightarrow> JUndefined)"

fun isArray :: "jsval \<Rightarrow> bool" where
  "isArray (JArr xs) = True"
| "isArray v = False"

section \<open>The upload trigger \<^verbatim>\<open>onFileUpload\<close>: data\<close>

text \<open>The storage event. \<^verbatim>\<open>object.name\<close> and \<^verbatim>\<open>object.contentType\<close> may be absent; the size
  is a string, as the storage service declares it.\<close>

record objectMetadata =
  obj_bucket :: string
  obj_name :: "string option"
  obj_contentType :: "string option"
  obj_size :: "string option"

text \<open>The locals of the handler once the path and the content type are known.\<close>

record upload =
  up_bucket :: string
  up_filePath :: string
  up_contentType :: string
  up_pathParts :: "string list"
  up_userId :: string
  up_fileType :: string

datatype fieldValue = ServerTimestamp

record deckData =
  deck_title :: string
  deck_userId :: string
  deck_createdAt :: fieldValue
  deck_updatedAt :: "fieldValue option"
  deck_status :: string
  deck_total_cards :: nat
  deck_source_type :: "string option"
  deck_model_used :: "jsval option"
  deck_transcription :: "jsval option"
  deck_audio_info :: "jsval option"
  deck_error_message :: "string option"

record cardData =
  cd_id :: jsval
  cd_type :: jsval
  cd_question :: jsval
  cd_answer :: jsval
  cd_source_text :: jsval
  cd_difficulty :: jsval
  cd_created_at :: fieldValue

text \<open>The two requests to the AI service: \<^verbatim>\<open>POST /process\<close> with a text and a card count,
  \<^verbatim>\<open>POST /process-audio\<close> with the audio bytes, file name, content type and the card count
  field.\<close>

datatype request =
    PostProcess string nat
  | PostProcessAudio string string string string

datatype level = Error | Warn | Info

text \<open>
  What a run does to the outside world, in order: log lines, downloads from the bucket,
  requests sent to the AI service, and the writes the database applied: a deck document
  set at \<^verbatim>\<open>decks/{deckId}\<close>, and a committed batch of card writes, each at
  \<^verbatim>\<open>decks/{deckId}/cards/{id}\<close>. A write that the database refused leaves no event.
\<close>

datatype event =
    Log level string
  | Download string string
  | AiPost request
  | DeckSet string deckData
  | BatchCommit string "(string \<times> cardData) list"

text \<open>
  The collaborators, as functions of what they are called with: the bucket download, the
  PDF text extractor, the UTF-8 decoder of a buffer, the HTTP client (a thrown value for a
  network failure or a non-2xx status, else the response body), the clock (the k-th reading
  of \<^verbatim>\<open>Date.now()\<close> in a run), and the database (\<open>None\<close> when the write is applied).
\<close>

record env =
  download :: "string \<Rightarrow> string \<Rightarrow> thrown + string"
  pdfParse :: "string \<Rightarrow> thrown + string"
  toStringUtf8 :: "string \<Rightarrow> string"
  post :: "request \<Rightarrow> thrown + jsval"
  now :: "nat \<Rightarrow> nat"
  firestoreSet :: "string \<Rightarrow> deckData \<Rightarrow> thrown option"
  batchCommit :: "string \<Rightarrow> (string \<times> cardData) list \<Rightarrow> thrown option"

section \<open>Validation (lines 19 to 91)\<close>

datatype rejection =
    BadPath
  | MissingPathOrType
  | DocumentTooLarge string
  | UnsupportedDocumentType string
  | InvalidDocumentExtension string
  | AudioTooLarge string
  | UnsupportedAudioType string
  | InvalidAudioExtension string
  | UnknownFileType string

definition maxDocumentSize :: int where
  "maxDocumentSize = 10 * 1024 * 1024"

definition maxAudioSize :: int where
  "maxAudioSize = 50 * 1024 * 1024"

definition allowedDocumentTypes :: "string list" where
  "allowedDocumentTypes = [''application/pdf'', ''text/plain'']"

definition allowedDocumentExtensions :: "string list" where
  "allowedDocumentExtensions = [''.pdf'', ''.txt'']"

definition allowedAudioTypes :: "string list" where
  "allowedAudioTypes =
     [''audio/mp3'', ''audio/wav'', ''audio/m4a'', ''audio/flac'', ''audio/aac'', ''audio/ogg'',
      ''audio/mpeg'']"

definition allowedAudioExtensions :: "string list" where
  "allowedAudioExtensions = [''.mp3'', ''.wav'', ''.m4a'', ''.flac'', ''.aac'', ''.ogg'']"

text \<open>\<^verbatim>\<open>fileSize && parseInt(fileSize) > max\<close>.\<close>

definition exceeds :: "string option \<Rightarrow> int \<Rightarrow> bool" where
  "exceeds fileSize m =
     (case fileSize of
        None \<Rightarrow> False
      | Some s \<Rightarrow> s \<noteq> [] \<and> (case parseInt s of Some n \<Rightarrow> n > m | None \<Rightarrow> False))"

text \<open>\<^verbatim>\<open>filePath.toLowerCase().substring(filePath.lastIndexOf('.'))\<close>.\<close>

definition fileExtension :: "string \<Rightarrow> string" where
  "fileExtension filePath = substring (toLowerCase filePath) (lastIndexOf filePath (CHR ''.''))"

text \<open>Lines 21 to 28: the user id and the file type, \<^verbatim>\<open>null\<close> unless the path has at least
  four parts and starts with \<^verbatim>\<open>uploads\<close>.\<close>

definition extractIds :: "string option \<Rightarrow> (string \<times> string) option" where
  "extractIds filePath =
     (case filePath of
        None \<Rightarrow> None
      | Some p \<Rightarrow>
          (let pathParts = split (CHR ''/'') p
           in if length pathParts \<ge> 4 \<and> pathParts ! 0 = ''uploads''
              then Some (pathParts ! 2, pathParts ! 1)
              else None))"

definition validate :: "objectMetadata \<Rightarrow> rejection + upload" where
  "validate object =
     (case extractIds (obj_name object) of
        None \<Rightarrow> Inl BadPath
      | Some (userId, fileType) \<Rightarrow>
          if userId = [] \<or> fileType = [] then Inl BadPath
          else if strOr (obj_name object) [] = [] \<or> strOr (obj_contentType object) [] = []
          then Inl MissingPathOrType
          else
            (let filePath = strOr (obj_name object) [];
                 contentType = strOr (obj_contentType object) [];
                 fileSize = obj_size object;
                 ok = Inr \<lparr> up_bucket = obj_bucket object, up_filePath = filePath,
                            up_contentType = contentType,
                            up_pathParts = split (CHR ''/'') filePath,
                            up_userId = userId, up_fileType = fileType \<rparr>
             in if fileType = ''documents'' then
                  (if exceeds fileSize maxDocumentSize
                   then Inl (DocumentTooLarge (strOr fileSize []))
                   else if \<not> list_ex (\<lambda>type. startsWith contentType type) allowedDocumentTypes
                   then Inl (UnsupportedDocumentType contentType)
                   else if \<not> List.member allowedDocumentExtensions (fileExtension filePath)
                   then Inl (InvalidDocumentExtension (fileExtension filePath))
                   else ok)
                else if fileType = ''audio'' then
                  (if exceeds fileSize maxAudioSize
                   then Inl (AudioTooLarge (strOr fileSize []))
                   else if \<not> list_ex (\<lambda>type. startsWith contentType type) allowedAudioTypes
                   then Inl (UnsupportedAudioType contentType)
                   else if \<not> List.member allowedAudioExtensions (fileExtension filePath)
                   then Inl (InvalidAudioExtension (fileExtension filePath))
                   else ok)
                else Inl (UnknownFileType fileType)))"

text \<open>The line logged at each rejection.\<close>

fun rejectionMessage :: "rejection \<Rightarrow> string" where
  "rejectionMessage BadPath =
     ''Could not extract user ID or file type from file path. File path should be: uploads/{type}/{userId}/{filename}''"
| "rejectionMessage MissingPathOrType = ''File path or content type not available.''"
| "rejectionMessage (DocumentTooLarge fileSize) =
     ''Document size '' @ fileSize @ '' exceeds maximum allowed size of ''
       @ showNat (nat maxDocumentSize) @ '' bytes.''"
| "rejectionMessage (UnsupportedDocumentType contentType) =
     ''Unsupported document type: '' @ contentType @ ''. Only PDF and TXT files are allowed.''"
| "rejectionMessage (InvalidDocumentExtension ext) =
     ''Invalid document extension: '' @ ext @ ''. Only .pdf and .txt files are allowed.''"
| "rejectionMessage (AudioTooLarge fileSize) =
     ''Audio size '' @ fileSize @ '' exceeds maximum allowed size of ''
       @ showNat (nat maxAudioSize) @ '' bytes.''"
| "rejectionMessage (UnsupportedAudioType contentType) =
     ''Unsupported audio type: '' @ contentType
       @ ''. Only MP3, WAV, M4A, FLAC, AAC, OGG files are allowed.''"
| "rejectionMessage (InvalidAudioExtension ext) =
     ''Invalid audio extension: '' @ ext @ ''. Only audio files are allowed.''"
| "rejectionMessage (UnknownFileType fileType) =
     ''Unknown file type: '' @ fileType @ ''. Only 'documents' and 'audio' are supported.''"


section \<open>Extraction and the AI request (lines 95 to 178)\<close>

text \<open>How a stretch of the handler ends: it goes on with a value, it returns from the
  handler, or it throws to the enclosing \<^verbatim>\<open>catch\<close>.\<close>

datatype 'a step = Continue 'a | Return | Throw thrown

definition minTextLength :: nat where
  "minTextLength = 10"

definition maxTextLength :: nat where
  "maxTextLength = 100000"

text \<open>Lines 96 to 149. The value carried on is \<^verbatim>\<open>aiServiceResponse.data\<close>.\<close>

definition processDocument :: "env \<Rightarrow> upload \<Rightarrow> event list \<times> jsval option step" where
  "processDocument env v =
     (let dl = Download (up_bucket v) (up_filePath v)
      in case download env (up_bucket v) (up_filePath v) of
           Inl error \<Rightarrow> ([dl, Log Error ''Failed to download document:''], Return)
         | Inr fileBuffer \<Rightarrow>
             if fileBuffer = []
             then ([dl, Log Error ''Document is empty or corrupted.''], Return)
             else
               (case (if startsWith (up_contentType v) ''application/pdf''
                      then pdfParse env fileBuffer
                      else Inr (toStringUtf8 env fileBuffer)) of
                  Inl error \<Rightarrow> ([dl, Log Error ''Failed to extract text from document:''], Return)
                | Inr textContent \<Rightarrow>
                    if trim textContent = []
                    then ([dl, Log Error ''Extracted text content is empty.''], Return)
                    else if length textContent < minTextLength
                    then ([dl, Log Error (''Text content too short: ''
                             @ showNat (length textContent) @ '' characters. Minimum required: ''
                             @ showNat minTextLength)], Return)
                    else
                      (let long = (length textContent > maxTextLength);
                           warning =
                             (if long
                              then [Log Warn (''Text content very long: ''
                                      @ showNat (length textContent)
                                      @ '' characters. Truncating to '' @ showNat maxTextLength
                                      @ ''.'')]
                              else []);
                           text = (if long then take maxTextLength textContent else textContent);
                           req = PostProcess text 15;
                           before = [dl] @ warning
                             @ [Log Info ''Sending document text to AI service for processing...'',
                                AiPost req]
                       in case post env req of
                            Inl error \<Rightarrow> (before, Throw error)
                          | Inr data \<Rightarrow> (before, Continue (Some data)))))"

text \<open>Lines 151 to 178. The download is not guarded here: its failure goes to the
  enclosing \<^verbatim>\<open>catch\<close>. The path has at least four parts once validated, so
  \<^verbatim>\<open>pathParts[3]\<close> is there.\<close>

definition processAudio :: "env \<Rightarrow> upload \<Rightarrow> event list \<times> jsval option step" where
  "processAudio env v =
     (let start = [Log Info ''Sending audio file to AI service for processing...'',
                   Download (up_bucket v) (up_filePath v)]
      in case download env (up_bucket v) (up_filePath v) of
           Inl error \<Rightarrow> (start, Throw error)
         | Inr fileBuffer \<Rightarrow>
             (let originalFilename = up_pathParts v ! 3;
                  req = PostProcessAudio fileBuffer originalFilename (up_contentType v) ''12''
              in case post env req of
                   Inl error \<Rightarrow> (start @ [AiPost req], Throw error)
                 | Inr data \<Rightarrow> (start @ [AiPost req], Continue (Some data))))"

section \<open>Persisting the deck and its cards (lines 202 to 256)\<close>

text \<open>\<^verbatim>\<open>filePath.split('/').pop()?.split('.')[0] || `deck-${Date.now()}`\<close>, with the number of
  clock readings made so far, before and after.\<close>

definition deckFilename :: "env \<Rightarrow> nat \<Rightarrow> string \<Rightarrow> string \<times> nat" where
  "deckFilename env clock filePath =
     (let base = hd (split (CHR ''.'') (last (split (CHR ''/'') filePath)))
      in if base \<noteq> [] then (base, clock)
         else (''deck-'' @ showNat (now env clock), Suc clock))"

text \<open>An expression that may throw, followed by what uses its value.\<close>

definition andThen :: "thrown + 'a \<Rightarrow> ('a \<Rightarrow> thrown + 'b) \<Rightarrow> thrown + 'b" where
  "andThen m f = (case m of Inl e \<Rightarrow> Inl e | Inr x \<Rightarrow> f x)"

text \<open>Lines 240 to 248, for the card at position \<open>index\<close> (from 0).\<close>

definition buildCardData :: "nat \<Rightarrow> jsval \<Rightarrow> thrown + cardData" where
  "buildCardData index flashcard =
     andThen (getProp flashcard ''id'') (\<lambda>vid.
     andThen (getProp flashcard ''type'') (\<lambda>vtype.
     andThen (getProp flashcard ''question'') (\<lambda>vquestion.
     andThen (getProp flashcard ''answer'') (\<lambda>vanswer.
     andThen (getProp flashcard ''source_text'') (\<lambda>vsource.
     andThen (getProp flashcard ''difficulty'') (\<lambda>vdifficulty.
       Inr \<lparr> cd_id = orElse vid (JStr (''card_'' @ showNat (index + 1))),
             cd_type = orElse vtype (JStr ''qa''),
             cd_question = orElse vquestion (JStr ''No question generated''),
             cd_answer = orElse vanswer (JStr ''No answer provided''),
             cd_source_text = orElse vsource (JStr ''Source text not available''),
             cd_difficulty = orElse vdifficulty (JStr ''medium''),
             cd_created_at = ServerTimestamp \<rparr>))))))"

text \<open>
  \<^verbatim>\<open>collection('cards').doc(cardData.id)\<close>, as the database client does it. The id must be a
  non-empty string without \<^verbatim>\<open>//\<close>; it is split at \<^verbatim>\<open>/\<close> and its empty segments are
  dropped; the segments are appended to the three segments \<^verbatim>\<open>decks/{deckId}/cards\<close> of the
  collection, and the result must be a document path: a non-zero, even number of segments.
  Otherwise the call throws. So \<^verbatim>\<open>a\<close> and \<^verbatim>\<open>a/\<close> name one document, \<^verbatim>\<open>a/b\<close> throws.
\<close>

fun hasDoubleSlash :: "string \<Rightarrow> bool" where
  "hasDoubleSlash (x # y # zs) = ((x = CHR ''/'' \<and> y = CHR ''/'') \<or> hasDoubleSlash (y # zs))"
| "hasDoubleSlash s = False"

definition segments :: "string \<Rightarrow> string list" where
  "segments relativePath = filter (\<lambda>segment. length segment > 0) (split (CHR ''/'') relativePath)"

definition isDocument :: "nat \<Rightarrow> bool" where
  "isDocument n = (n > 0 \<and> n mod 2 = 0)"

text \<open>The path of the document that an id names below the collection.\<close>

definition documentPath :: "string \<Rightarrow> string" where
  "documentPath documentId = join ''/'' (segments documentId)"

definition notResourcePath :: string where
  "notResourcePath =
     ''Value for argument '' @ [DQUOTE] @ ''documentPath'' @ [DQUOTE]
       @ '' is not a valid resource path.''"

text \<open>The reference made from an id, or what the call throws. A reference is written as
  the id it was made from; the document it names is \<open>documentPath\<close> of that id.\<close>

definition cardRef :: "jsval \<Rightarrow> thrown + string" where
  "cardRef v =
     (case v of
        JStr s \<Rightarrow>
          if s = [] then Inl (ErrorInstance (notResourcePath @ '' Path must be a non-empty string.''))
          else if hasDoubleSlash s
          then Inl (ErrorInstance (notResourcePath @ '' Paths must not contain //.''))
          else if \<not> isDocument (3 + length (segments s))
          then Inl (ErrorInstance
                 (''Value for argument '' @ [DQUOTE] @ ''documentPath'' @ [DQUOTE]
                    @ '' must point to a document, but was '' @ [DQUOTE] @ s @ [DQUOTE]
                    @ ''. Your path does not contain an even number of components.''))
          else Inr s
      | _ \<Rightarrow> Inl (ErrorInstance (notResourcePath @ '' Path must be a non-empty string.'')))"

text \<open>The \<^verbatim>\<open>forEach\<close> of lines 238 to 252: the writes queued in the batch, in order, or the
  first exception.\<close>

fun buildBatch :: "nat \<Rightarrow> jsval list \<Rightarrow> thrown + (string \<times> cardData) list" where
  "buildBatch index [] = Inr []"
| "buildBatch index (flashcard # rest) =
     (case buildCardData index flashcard of
        Inl e \<Rightarrow> Inl e
      | Inr cardData \<Rightarrow>
          (case cardRef (cd_id cardData) of
             Inl e \<Rightarrow> Inl e
           | Inr ref \<Rightarrow>
               (case buildBatch (index + 1) rest of
                  Inl e \<Rightarrow> Inl e
                | Inr writes \<Rightarrow> Inr ((ref, cardData) # writes))))"

text \<open>Lines 219 to 230: the audio metadata added to the deck.\<close>

definition transcriptionData :: "jsval \<Rightarrow> jsval" where
  "transcriptionData t =
     JObj [(''text'', readProp t ''text''),
           (''language'', readProp t ''language''),
           (''duration'', readProp t ''duration''),
           (''segments_count'',
              if truthy (readProp t ''segments'')
              then readProp (readProp t ''segments'') ''length''
              else JNum 0)]"

definition buildDeckData :: "upload \<Rightarrow> jsval \<Rightarrow> nat \<Rightarrow> deckData" where
  "buildDeckData v aiData n =
     (let audio = (up_fileType v = ''audio'' \<and> truthy (readProp aiData ''transcription''))
      in \<lparr> deck_title = strOr (Some (last (split (CHR ''/'') (up_filePath v)))) ''Untitled Deck'',
            deck_userId = up_userId v,
            deck_createdAt = ServerTimestamp,
            deck_updatedAt = Some ServerTimestamp,
            deck_status = ''completed'',
            deck_total_cards = n,
            deck_source_type = Some (up_fileType v),
            deck_model_used = Some (orElse (readProp aiData ''model'') (JStr ''gemini-1.5-pro-latest'')),
            deck_transcription =
              (if audio then Some (transcriptionData (readProp aiData ''transcription'')) else None),
            deck_audio_info =
              (if audio \<and> truthy (readProp aiData ''audio_info'')
               then Some (readProp aiData ''audio_info'') else None),
            deck_error_message = None \<rparr>)"

text \<open>Lines 202 to 256. The result is the events and, when an exception leaves the
  \<^verbatim>\<open>try\<close> block, the thrown value with the number of clock readings made.\<close>

definition persist ::
  "env \<Rightarrow> upload \<Rightarrow> jsval \<Rightarrow> jsval list \<Rightarrow> event list \<times> (thrown \<times> nat) option" where
  "persist env v aiData flashcards =
     (let (filename, k) = deckFilename env 0 (up_filePath v);
          deckId = up_userId v @ ''_'' @ filename @ ''_'' @ showNat (now env k);
          clock = Suc k;
          deckData = buildDeckData v aiData (length flashcards)
      in case firestoreSet env deckId deckData of
           Some error \<Rightarrow> ([], Some (error, clock))
         | None \<Rightarrow>
             (case buildBatch 0 flashcards of
                Inl error \<Rightarrow> ([DeckSet deckId deckData], Some (error, clock))
              | Inr writes \<Rightarrow>
                  (case batchCommit env deckId writes of
                     Some error \<Rightarrow> ([DeckSet deckId deckData], Some (error, clock))
                   | None \<Rightarrow>
                       ([DeckSet deckId deckData, BatchCommit deckId writes,
                         Log Info (''Successfully processed file and saved ''
                           @ showNat (length flashcards) @ '' flashcards to deck: '' @ deckId)],
                        None))))"


section \<open>The handler\<close>

fun elements :: "jsval \<Rightarrow> jsval list" where
  "elements (JArr xs) = xs"
| "elements v = []"

text \<open>Lines 180 to 256: what is done with \<^verbatim>\<open>aiServiceResponse\<close> (\<open>None\<close> when no branch
  assigned it).\<close>

definition afterResponse ::
  "env \<Rightarrow> upload \<Rightarrow> jsval option \<Rightarrow> event list \<times> (thrown \<times> nat) option" where
  "afterResponse env v aiServiceResponse =
     (case aiServiceResponse of
        None \<Rightarrow> ([Log Error ''No response received from AI service''], None)
      | Some aiData \<Rightarrow>
          (case getProp aiData ''success'' of
             Inl error \<Rightarrow> ([], Some (error, 0))
           | Inr success \<Rightarrow>
               if \<not> truthy success \<or> \<not> truthy (readProp aiData ''flashcards'')
                  \<or> \<not> isArray (readProp aiData ''flashcards'')
               then ([Log Error ''Invalid response from AI service:''], None)
               else
                 (let flashcards = elements (readProp aiData ''flashcards'')
                  in if length flashcards = 0
                     then ([Log Warn ''AI service returned no flashcards''], None)
                     else persist env v aiData flashcards)))"

text \<open>Lines 95 to 257: the \<^verbatim>\<open>try\<close> block, first the branch on the file type (lines 96 to
  178), then the response.\<close>

definition sendToAiService :: "env \<Rightarrow> upload \<Rightarrow> event list \<times> jsval option step" where
  "sendToAiService env v =
     (if up_fileType v = ''documents'' then processDocument env v
      else if up_fileType v = ''audio'' then processAudio env v
      else ([], Continue None))"

definition tryBlock :: "env \<Rightarrow> upload \<Rightarrow> event list \<times> (thrown \<times> nat) option" where
  "tryBlock env v =
     (let (events, st) = sendToAiService env v
      in case st of
           Return \<Rightarrow> (events, None)
         | Throw error \<Rightarrow> (events, Some (error, 0))
         | Continue aiServiceResponse \<Rightarrow>
             (let (later, thrown) = afterResponse env v aiServiceResponse
              in (events @ [Log Info ''Received response from AI service''] @ later, thrown)))"

text \<open>Lines 258 to 280: the \<^verbatim>\<open>catch\<close> block, entered with the thrown value after
  \<open>clock\<close> readings of the clock.\<close>

definition errorMessage :: "thrown \<Rightarrow> string" where
  "errorMessage error =
     (case error of ErrorInstance message \<Rightarrow> message | OtherValue \<Rightarrow> ''Unknown error occurred'')"

definition failedDeckData :: "upload \<Rightarrow> thrown \<Rightarrow> deckData" where
  "failedDeckData v error =
     \<lparr> deck_title = strOr (Some (last (split (CHR ''/'') (up_filePath v)))) ''Failed Processing'',
       deck_userId = up_userId v,
       deck_createdAt = ServerTimestamp,
       deck_updatedAt = None,
       deck_status = ''failed'',
       deck_total_cards = 0,
       deck_source_type = None,
       deck_model_used = None,
       deck_transcription = None,
       deck_audio_info = None,
       deck_error_message = Some (errorMessage error) \<rparr>"

definition catchBlock :: "env \<Rightarrow> upload \<Rightarrow> nat \<Rightarrow> thrown \<Rightarrow> event list" where
  "catchBlock env v clock error =
     (let (filename, k) = deckFilename env clock (up_filePath v);
          deckId = up_userId v @ ''_'' @ filename @ ''_'' @ showNat (now env k) @ ''_failed''
      in Log Error ''Error calling AI service or saving to Firestore:'' #
         (case firestoreSet env deckId (failedDeckData v error) of
            None \<Rightarrow>
              [DeckSet deckId (failedDeckData v error),
               Log Info (''Created failed deck entry: '' @ deckId)]
          | Some dbError \<Rightarrow> [Log Error ''Failed to create error deck entry:'']))"

text \<open>The rejections of lines 30 and 36, made before the log line of line 41; the others
  (lines 44 to 91) come after it.\<close>

fun beforeProcessingLog :: "rejection \<Rightarrow> bool" where
  "beforeProcessingLog BadPath = True"
| "beforeProcessingLog MissingPathOrType = True"
| "beforeProcessingLog r = False"

text \<open>Line 41: \<^verbatim>\<open>`Processing ${fileType} file for user ${userId}: ${filePath}`\<close>, with the file
  type and the user id as lines 26 and 27 read them from the path.\<close>

definition processingMessage :: "objectMetadata \<Rightarrow> string" where
  "processingMessage object =
     (let filePath = strOr (obj_name object) [];
          pathParts = split (CHR ''/'') filePath
      in ''Processing '' @ pathParts ! 1 @ '' file for user '' @ pathParts ! 2 @ '': '' @ filePath)"

text \<open>The handler: everything a run does for one storage event.\<close>

definition onFileUpload :: "env \<Rightarrow> objectMetadata \<Rightarrow> event list" where
  "onFileUpload env object =
     (case validate object of
        Inl r \<Rightarrow>
          if beforeProcessingLog r then [Log Error (rejectionMessage r)]
          else [Log Info (processingMessage object), Log Error (rejectionMessage r)]
      | Inr v \<Rightarrow>
          (let (events, thrown) = tryBlock env v
           in [Log Info (processingMessage object)]
              @ events
              @ (case thrown of
                   None \<Rightarrow> []
                 | Some (error, clock) \<Rightarrow> catchBlock env v clock error)))"

section \<open>Reading a run\<close>

text \<open>The requests sent to the AI service, the deck documents written, the batches
  committed, and every database write of a run.\<close>

fun aiRequests :: "event list \<Rightarrow> request list" where
  "aiRequests [] = []"
| "aiRequests (AiPost r # es) = r # aiRequests es"
| "aiRequests (e # es) = aiRequests es"

fun deckWrites :: "event list \<Rightarrow> (string \<times> deckData) list" where
  "deckWrites [] = []"
| "deckWrites (DeckSet deckId d # es) = (deckId, d) # deckWrites es"
| "deckWrites (e # es) = deckWrites es"

fun batches :: "event list \<Rightarrow> (string \<times> (string \<times> cardData) list) list" where
  "batches [] = []"
| "batches (BatchCommit deckId ws # es) = (deckId, ws) # batches es"
| "batches (e # es) = batches es"

fun isWrite :: "event \<Rightarrow> bool" where
  "isWrite (DeckSet deckId d) = True"
| "isWrite (BatchCommit deckId ws) = True"
| "isWrite e = False"

definition writes :: "event list \<Rightarrow> event list" where
  "writes es = filter isWrite es"

text \<open>The card documents in the database after a run: the paths below
  \<^verbatim>\<open>decks/{deckId}/cards\<close> written by the committed batches. Two writes to one path
  leave one document.\<close>

definition cardDocuments :: "event list \<Rightarrow> (string \<times> string) set" where
  "cardDocuments es =
     set (concat (map (\<lambda>(deckId, ws). map (\<lambda>(ref, d). (deckId, documentPath ref)) ws) (batches es)))"

section \<open>The export of the deck page (\<^verbatim>\<open>handleExport\<close>)\<close>

text \<open>
  A card as the page holds it (interface \<^verbatim>\<open>Flashcard\<close>): id, type, question and answer are
  required, the source text and the difficulty are optional.
\<close>

record flashcard =
  fc_id :: string
  fc_type :: string
  fc_question :: string
  fc_answer :: string
  fc_source_text :: "string option"
  fc_difficulty :: "string option"

text \<open>
  Lines 56 to 60: a card of the page from a stored document,
  \<^verbatim>\<open>{ id: doc.id, ...doc.data() }\<close> cast to \<^verbatim>\<open>Flashcard\<close>. The stored \<^verbatim>\<open>id\<close> field comes
  after \<^verbatim>\<open>doc.id\<close> in the literal and is the one kept. The cast is not checked; the result is
  \<open>None\<close> when a required field of the document is not a string, and the page is not
  modelled on such a card.
\<close>

fun stringOf :: "jsval \<Rightarrow> string option" where
  "stringOf (JStr s) = Some s"
| "stringOf v = None"

definition cardOfDocument :: "cardData \<Rightarrow> flashcard option" where
  "cardOfDocument d =
     (case (stringOf (cd_id d), stringOf (cd_type d), stringOf (cd_question d),
            stringOf (cd_answer d)) of
        (Some i, Some t, Some q, Some a) \<Rightarrow>
          Some \<lparr> fc_id = i, fc_type = t, fc_question = q, fc_answer = a,
                 fc_source_text = stringOf (cd_source_text d),
                 fc_difficulty = stringOf (cd_difficulty d) \<rparr>
      | _ \<Rightarrow> None)"

text \<open>The formats whose content is built in the page. The Anki package (built by the remote
  service) and the JSON format are not part of this model.\<close>

datatype exportFormat = Csv | QuizletCsv | QuizletTxt | Txt

datatype exportOutcome =
    Alert string
  | DownloadFile string string string

text \<open>\<^verbatim>\<open>s.replace(/"/g, '""')\<close>.\<close>

definition replaceQuotes :: "string \<Rightarrow> string" where
  "replaceQuotes s = concat (map (\<lambda>c. if c = DQUOTE then [DQUOTE, DQUOTE] else [c]) s)"

definition csvRow :: "flashcard \<Rightarrow> string" where
  "csvRow c =
     [DQUOTE] @ replaceQuotes (fc_question c) @ [DQUOTE] @ '','' @
     [DQUOTE] @ replaceQuotes (fc_answer c) @ [DQUOTE] @ '','' @
     [DQUOTE] @ fc_type c @ [DQUOTE] @ '','' @
     [DQUOTE] @ strOr (fc_difficulty c) ''medium'' @ [DQUOTE]"

definition quizletCsvRow :: "flashcard \<Rightarrow> string" where
  "quizletCsvRow c =
     [DQUOTE] @ replaceQuotes (fc_question c) @ [DQUOTE] @ '','' @
     [DQUOTE] @ replaceQuotes (fc_answer c) @ [DQUOTE]"

definition quizletTxtRow :: "flashcard \<Rightarrow> string" where
  "quizletTxtRow c = fc_question c @ [TAB] @ fc_answer c"

definition txtBlock :: "nat \<times> flashcard \<Rightarrow> string" where
  "txtBlock ic =
     ''Card '' @ showNat (fst ic + 1) @ '':'' @ [NEWLINE] @
     ''Q: '' @ fc_question (snd ic) @ [NEWLINE] @
     ''A: '' @ fc_answer (snd ic) @ [NEWLINE] @ ''---'' @ [NEWLINE]"

text \<open>Lines 94 to 174: the selected cards, the alert when there is none, else the file
  offered for download: its name, MIME type and content.\<close>

definition handleExport ::
  "string option \<Rightarrow> flashcard list \<Rightarrow> string set \<Rightarrow> exportFormat \<Rightarrow> exportOutcome" where
  "handleExport title cards selectedCards exportFormat =
     (let selectedCardData = filter (\<lambda>c. fc_id c \<in> selectedCards) cards
      in if length selectedCardData = 0
         then Alert ''Please select at least one card to export''
         else
           (case exportFormat of
              Csv \<Rightarrow>
                DownloadFile (strOr title ''flashcards'' @ ''.csv'') ''text/csv''
                  (''Front,Back,Type,Difficulty'' @ [NEWLINE]
                     @ join [NEWLINE] (map csvRow selectedCardData))
            | QuizletCsv \<Rightarrow>
                DownloadFile (strOr title ''flashcards'' @ ''.csv'') ''text/csv''
                  (''Term,Definition'' @ [NEWLINE]
                     @ join [NEWLINE] (map quizletCsvRow selectedCardData))
            | QuizletTxt \<Rightarrow>
                DownloadFile (strOr title ''flashcards'' @ ''.txt'') ''text/plain''
                  (join [NEWLINE] (map quizletTxtRow selectedCardData))
            | Txt \<Rightarrow>
                DownloadFile (strOr title ''flashcards'' @ ''.txt'') ''text/plain''
                  (join [NEWLINE] (map txtBlock (enumerate 0 selectedCardData)))))"

section \<open>The claims' vocabulary and example inputs\<close>

text \<open>Escaping by doubling, in the words of the export contract: every double quote is
  written twice, and a field is put between double quotes.\<close>

fun doubled :: "string \<Rightarrow> string" where
  "doubled [] = []"
| "doubled (c # cs) = (if c = DQUOTE then DQUOTE # DQUOTE # doubled cs else c # doubled cs)"

definition quoted :: "string \<Rightarrow> string" where
  "quoted s = [DQUOTE] @ doubled s @ [DQUOTE]"

text \<open>Two cards of the deck page: the first has a double quote in its question and no
  difficulty, the second has a difficulty.\<close>

definition cardQ1 :: flashcard where
  "cardQ1 = \<lparr> fc_id = ''card_1'', fc_type = ''qa'', fc_question = ''Q1'' @ [DQUOTE] @ ''x'',
      fc_answer = ''A1'', fc_source_text = None, fc_difficulty = None \<rparr>"

definition cardQ2 :: flashcard where
  "cardQ2 = \<lparr> fc_id = ''card_2'', fc_type = ''cloze'', fc_question = ''Q2'',
      fc_answer = ''A2'', fc_source_text = None, fc_difficulty = Some ''hard'' \<rparr>"

text \<open>The flashcard \<^verbatim>\<open>{question: "Q1\"x", answer: "A1"}\<close> as the AI service returns it, with
  no other field.\<close>

definition claimCard :: jsval where
  "claimCard = JObj [(''question'', JStr (''Q1'' @ [DQUOTE] @ ''x'')), (''answer'', JStr ''A1'')]"

text \<open>A flashcard of the AI service whose answer has two lines.\<close>

definition twoLineCard :: jsval where
  "twoLineCard =
     JObj [(''question'', JStr ''Q3''),
           (''answer'', JStr (''first line'' @ [NEWLINE] @ ''second line''))]"

text \<open>The file type the handler reads from the path (line 26), when it reads one.\<close>

definition uploadKind :: "objectMetadata \<Rightarrow> string option" where
  "uploadKind object = map_option snd (extractIds (obj_name object))"

text \<open>The path shape in the words of the specification: exactly the four segments
  \<^verbatim>\<open>uploads/{kind}/{userId}/{filename}\<close>, the kind being \<^verbatim>\<open>documents\<close> or \<^verbatim>\<open>audio\<close>.\<close>

definition specPathShape :: "string \<Rightarrow> bool" where
  "specPathShape p =
     (let parts = split (CHR ''/'') p
      in length parts = 4 \<and> parts ! 0 = ''uploads''
         \<and> (parts ! 1 = ''documents'' \<or> parts ! 1 = ''audio''))"

text \<open>The path shape the handler lets through: at least four segments, the first
  \<^verbatim>\<open>uploads\<close>, the second \<^verbatim>\<open>documents\<close> or \<^verbatim>\<open>audio\<close>, the third not empty.\<close>

definition pathAccepted :: "string \<Rightarrow> bool" where
  "pathAccepted p =
     (let parts = split (CHR ''/'') p
      in length parts \<ge> 4 \<and> parts ! 0 = ''uploads''
         \<and> (parts ! 1 = ''documents'' \<or> parts ! 1 = ''audio'') \<and> parts ! 2 \<noteq> [])"

text \<open>A malformed response body in the words of the specification: any shape other than
  an object with a success flag and a flashcards field that is a list.\<close>

fun malformedBody :: "jsval \<Rightarrow> bool" where
  "malformedBody (JObj kvs) =
     (map_of kvs ''success'' = None
      \<or> (case map_of kvs ''flashcards'' of None \<Rightarrow> True | Some x \<Rightarrow> \<not> isArray x))"
| "malformedBody v = True"

text \<open>An id that names a document: a non-empty string without \<^verbatim>\<open>//\<close> that has an odd
  number of non-empty segments between its slashes, so that with the three segments of
  the collection the path is a document path.\<close>

definition namesDocument :: "string \<Rightarrow> bool" where
  "namesDocument s = (s \<noteq> [] \<and> \<not> hasDoubleSlash s \<and> odd (length (segments s)))"

fun namesDocumentValue :: "jsval option \<Rightarrow> bool" where
  "namesDocumentValue (Some (JStr s)) = namesDocument s"
| "namesDocumentValue v = False"

text \<open>A well-formed flashcard: an object whose id is a string naming a document and whose
  type, question and answer are non-empty strings. \<open>idOf\<close> is its id.\<close>

fun nonEmptyString :: "jsval option \<Rightarrow> bool" where
  "nonEmptyString (Some (JStr s)) = (s \<noteq> [])"
| "nonEmptyString v = False"

fun wellFormedCard :: "jsval \<Rightarrow> bool" where
  "wellFormedCard (JObj kvs) =
     (namesDocumentValue (map_of kvs ''id'') \<and> nonEmptyString (map_of kvs ''type'')
      \<and> nonEmptyString (map_of kvs ''question'') \<and> nonEmptyString (map_of kvs ''answer''))"
| "wellFormedCard v = False"

fun idOf :: "jsval \<Rightarrow> string" where
  "idOf (JObj kvs) = (case map_of kvs ''id'' of Some (JStr s) \<Rightarrow> s | _ \<Rightarrow> [])"
| "idOf v = []"

text \<open>A partially populated flashcard: an object in which any field may be missing; its
  id, when present and truthy, is a string naming a document.\<close>

fun partialCard :: "jsval \<Rightarrow> bool" where
  "partialCard (JObj kvs) =
     (case map_of kvs ''id'' of
        None \<Rightarrow> True
      | Some v \<Rightarrow> \<not> truthy v \<or> namesDocumentValue (Some v))"
| "partialCard v = False"

text \<open>What the record of a field holds: the value of the field when it is there and
  truthy, else the default.\<close>

definition fieldOr :: "(string \<times> jsval) list \<Rightarrow> string \<Rightarrow> jsval \<Rightarrow> jsval" where
  "fieldOr kvs k d = (case map_of kvs k of Some x \<Rightarrow> if truthy x then x else d | None \<Rightarrow> d)"

text \<open>Example inputs: a text document of user \<^verbatim>\<open>u1\<close>, and collaborators that all succeed,
  the AI service answering with one card that has a question and an answer only.\<close>

definition exampleObject :: objectMetadata where
  "exampleObject =
     \<lparr> obj_bucket = ''bucket'', obj_name = Some ''uploads/documents/u1/notes.txt'',
       obj_contentType = Some ''text/plain'', obj_size = Some ''120'' \<rparr>"

definition exampleCard :: jsval where
  "exampleCard = JObj [(''question'', JStr ''Q1''), (''answer'', JStr ''A1'')]"

definition exampleBody :: "jsval list \<Rightarrow> jsval" where
  "exampleBody cs = JObj [(''success'', JBool True), (''flashcards'', JArr cs)]"

definition exampleEnv :: "jsval \<Rightarrow> env" where
  "exampleEnv body =
     \<lparr> download = (\<lambda>b p. Inr ''Photosynthesis turns light into sugar.''),
       pdfParse = (\<lambda>buffer. Inr buffer),
       toStringUtf8 = (\<lambda>buffer. buffer),
       post = (\<lambda>req. Inr body),
       now = (\<lambda>k. 1700000000000 + k),
       firestoreSet = (\<lambda>deckId d. None),
       batchCommit = (\<lambda>deckId ws. None) \<rparr>"

text \<open>A card with every field of the response contract, and a database that refuses the
  batch.\<close>

definition fullCard :: "string \<Rightarrow> jsval" where
  "fullCard i =
     JObj [(''id'', JStr i), (''type'', JStr ''cloze''), (''question'', JStr ''Q''),
           (''answer'', JStr ''A''), (''difficulty'', JStr ''hard'')]"

definition refusingBatch :: "jsval \<Rightarrow> env" where
  "refusingBatch body =
     (exampleEnv body)\<lparr> batchCommit := (\<lambda>deckId ws. Some (ErrorInstance ''DEADLINE_EXCEEDED'')) \<rparr>"

text \<open>The locals of the handler for the example document, and a PDF upload with its
  locals.\<close>

definition exampleUpload :: upload where
  "exampleUpload =
     \<lparr> up_bucket = ''bucket'', up_filePath = ''uploads/documents/u1/notes.txt'',
       up_contentType = ''text/plain'',
       up_pathParts = [''uploads'', ''documents'', ''u1'', ''notes.txt''],
       up_userId = ''u1'', up_fileType = ''documents'' \<rparr>"

definition examplePdf :: objectMetadata where
  "examplePdf =
     \<lparr> obj_bucket = ''bucket'', obj_name = Some ''uploads/documents/u1/paper.pdf'',
       obj_contentType = Some ''application/pdf'', obj_size = Some ''2048'' \<rparr>"

definition examplePdfUpload :: upload where
  "examplePdfUpload =
     \<lparr> up_bucket = ''bucket'', up_filePath = ''uploads/documents/u1/paper.pdf'',
       up_contentType = ''application/pdf'',
       up_pathParts = [''uploads'', ''documents'', ''u1'', ''paper.pdf''],
       up_userId = ''u1'', up_fileType = ''documents'' \<rparr>"

text \<open>Collaborators that fail: an empty download, a PDF that cannot be read, a text of
  five characters, a body without success flag, and an AI service answering 500.\<close>

definition emptyDownload :: env where
  "emptyDownload = (exampleEnv (exampleBody [exampleCard]))\<lparr> download := (\<lambda>b p. Inr []) \<rparr>"

definition unreadablePdf :: env where
  "unreadablePdf =
     (exampleEnv (exampleBody [exampleCard]))
       \<lparr> pdfParse := (\<lambda>buffer. Inl (ErrorInstance ''Invalid PDF structure'')) \<rparr>"

definition shortText :: env where
  "shortText = (exampleEnv (exampleBody [exampleCard]))\<lparr> download := (\<lambda>b p. Inr ''short'') \<rparr>"

definition bodyWithoutFlag :: jsval where
  "bodyWithoutFlag = JObj [(''flashcards'', JArr [exampleCard])]"

definition serviceDown :: env where
  "serviceDown =
     (exampleEnv (exampleBody [exampleCard]))
       \<lparr> post := (\<lambda>req. Inl (ErrorInstance ''Request failed with status code 500'')) \<rparr>"

text \<open>An audio upload one byte above the 50 MiB ceiling.\<close>

definition exampleAudio :: objectMetadata where
  "exampleAudio =
     \<lparr> obj_bucket = ''bucket'', obj_name = Some ''uploads/audio/u1/lecture.mp3'',
       obj_contentType = Some ''audio/mpeg'', obj_size = Some ''52428801'' \<rparr>"

text \<open>An upload of a kind that is neither \<^verbatim>\<open>documents\<close> nor \<^verbatim>\<open>audio\<close>.\<close>

definition exampleImage :: objectMetadata where
  "exampleImage =
     \<lparr> obj_bucket = ''bucket'', obj_name = Some ''uploads/images/u1/a.png'',
       obj_contentType = Some ''image/png'', obj_size = Some ''2048'' \<rparr>"



section \<open>Unfolding the model on concrete inputs\<close>

lemmas string_defs = parseInt_def trimStart_def isWhiteSpace_def parseDigits_def digitValue_def
  toLowerChar_def upperCaseLetters_def lowerCaseLetters_def toLowerCase_def startsWith_def
  lastIndexOf_def substring_def trim_def strOr_def

lemmas validation_defs = validate_def extractIds_def exceeds_def fileExtension_def
  maxDocumentSize_def maxAudioSize_def allowedDocumentTypes_def allowedDocumentExtensions_def
  allowedAudioTypes_def allowedAudioExtensions_def

lemmas run_defs = onFileUpload_def tryBlock_def sendToAiService_def processDocument_def
  processAudio_def afterResponse_def persist_def catchBlock_def deckFilename_def
  buildDeckData_def failedDeckData_def errorMessage_def buildCardData_def andThen_def
  cardRef_def segments_def isDocument_def processingMessage_def orElse_def readProp_def
  minTextLength_def maxTextLength_def Let_def

lemma showNat_clock: "showNat 1700000000000 = ''1700000000000''"
  by (simp add: showNat.simps)

section \<open>Properties of the string functions\<close>

lemma split_no_sep: "c \<notin> set s \<Longrightarrow> split c s = [s]"
  by (induction s) auto

lemma split_at_sep: "c \<notin> set a \<Longrightarrow> split c (a @ c # b) = a # split c b"
  by (induction a) auto

lemma showNat_digits: "set (showNat n) \<subseteq> set ''0123456789''"
proof (induction n rule: showNat.induct)
  case (1 n)
  have digit: "''0123456789'' ! k \<in> set ''0123456789''" if "k < 10" for k :: nat
    using that nth_mem [of k "''0123456789''"] by simp
  show ?case
  proof (cases "n < 10")
    case True
    then have "showNat n = [''0123456789'' ! n]"
      by (simp add: showNat.simps)
    with digit [OF True] show ?thesis by simp
  next
    case False
    then have "showNat n = showNat (n div 10) @ [''0123456789'' ! (n mod 10)]"
      by (subst showNat.simps) simp
    moreover have "n mod 10 < 10" by simp
    ultimately show ?thesis
      using "1.IH" [OF False] digit [of "n mod 10"] by simp
  qed
qed

lemma no_slash_no_double_slash: "CHR ''/'' \<notin> set s \<Longrightarrow> \<not> hasDoubleSlash s"
  by (induction s rule: hasDoubleSlash.induct) auto

lemma no_slash_segments: "s \<noteq> [] \<Longrightarrow> CHR ''/'' \<notin> set s \<Longrightarrow> segments s = [s]"
  by (simp add: segments_def split_no_sep)

lemma no_slash_names_document: "s \<noteq> [] \<Longrightarrow> CHR ''/'' \<notin> set s \<Longrightarrow> namesDocument s"
  by (simp add: namesDocument_def no_slash_no_double_slash no_slash_segments)

lemma fallback_names_document: "namesDocument (''card_'' @ showNat k)"
proof -
  have "CHR ''/'' \<notin> set (showNat k)"
    using showNat_digits [of k] by auto
  then show ?thesis
    by (intro no_slash_names_document) simp_all
qed

section \<open>The shape of a run\<close>

lemma aiRequests_append: "aiRequests (a @ b) = aiRequests a @ aiRequests b"
  by (induction a rule: aiRequests.induct) auto

lemma deckWrites_append: "deckWrites (a @ b) = deckWrites a @ deckWrites b"
  by (induction a rule: deckWrites.induct) auto

lemma batches_append: "batches (a @ b) = batches a @ batches b"
  by (induction a rule: batches.induct) auto

lemma writes_append: "writes (a @ b) = writes a @ writes b"
  by (simp add: writes_def)

lemma writes_empty_deckWrites: "writes es = [] \<Longrightarrow> deckWrites es = []"
  by (induction es rule: deckWrites.induct) (auto simp: writes_def)

lemma writes_empty_batches: "writes es = [] \<Longrightarrow> batches es = []"
  by (induction es rule: batches.induct) (auto simp: writes_def)

lemma rejected_run:
  "validate object = Inl r \<Longrightarrow>
   onFileUpload env object =
     (if beforeProcessingLog r then [Log Error (rejectionMessage r)]
      else [Log Info (processingMessage object), Log Error (rejectionMessage r)])"
  by (simp add: onFileUpload_def)

lemma accepted_run:
  "validate object = Inr v \<Longrightarrow>
   onFileUpload env object =
     [Log Info (processingMessage object)]
     @ fst (tryBlock env v)
     @ (case snd (tryBlock env v) of None \<Rightarrow> [] | Some (error, clock) \<Rightarrow> catchBlock env v clock error)"
  by (simp add: onFileUpload_def split: prod.splits)

lemma processDocument_cases:
  assumes "processDocument env v = (events, st)"
  shows "writes events = []
       \<and> (st = Return \<longrightarrow> aiRequests events = [])
       \<and> (\<forall>e. st = Throw e \<longrightarrow> (\<exists>req. aiRequests events = [req] \<and> post env req = Inl e))
       \<and> (\<forall>r. st = Continue r \<longrightarrow>
             (\<exists>req d. r = Some d \<and> aiRequests events = [req] \<and> post env req = Inr d))"
  using assms
  by (auto simp: processDocument_def Let_def writes_def aiRequests_append
           split: sum.splits if_splits)

lemma processAudio_cases:
  assumes "processAudio env v = (events, st)"
  shows "writes events = []
       \<and> st \<noteq> Return
       \<and> (\<forall>e. st = Throw e \<longrightarrow>
             aiRequests events = [] \<or> (\<exists>req. aiRequests events = [req] \<and> post env req = Inl e))
       \<and> (\<forall>r. st = Continue r \<longrightarrow>
             (\<exists>req d. r = Some d \<and> aiRequests events = [req] \<and> post env req = Inr d))"
  using assms
  by (auto simp: processAudio_def Let_def writes_def aiRequests_append
           split: sum.splits if_splits)

lemma sendToAiService_cases:
  assumes "sendToAiService env v = (events, st)"
  shows "writes events = []
       \<and> (st = Return \<longrightarrow> aiRequests events = [])
       \<and> (\<forall>e. st = Throw e \<longrightarrow>
             aiRequests events = [] \<or> (\<exists>req. aiRequests events = [req] \<and> post env req = Inl e))
       \<and> (\<forall>r. st = Continue r \<longrightarrow>
             (r = None \<and> aiRequests events = [])
             \<or> (\<exists>req d. r = Some d \<and> aiRequests events = [req] \<and> post env req = Inr d))"
proof (cases "up_fileType v = ''documents''")
  case True
  then have "processDocument env v = (events, st)"
    using assms by (simp add: sendToAiService_def)
  from processDocument_cases [OF this] show ?thesis by blast
next
  case False
  show ?thesis
  proof (cases "up_fileType v = ''audio''")
    case True
    then have "processAudio env v = (events, st)"
      using assms False by (simp add: sendToAiService_def)
    from processAudio_cases [OF this] show ?thesis by blast
  next
    case no: False
    then have "events = [] \<and> st = Continue None"
      using assms False by (auto simp: sendToAiService_def)
    then show ?thesis by (simp add: writes_def)
  qed
qed

lemma catchBlock_aiRequests: "aiRequests (catchBlock env v clock e) = []"
  by (simp add: catchBlock_def Let_def split: prod.splits option.splits)

lemma catchBlock_batches: "batches (catchBlock env v clock e) = []"
  by (simp add: catchBlock_def Let_def split: prod.splits option.splits)

lemma persist_aiRequests: "aiRequests (fst (persist env v aiData cs)) = []"
  by (simp add: persist_def Let_def split: prod.splits option.splits sum.splits)

lemma afterResponse_aiRequests: "aiRequests (fst (afterResponse env v r)) = []"
  by (simp add: afterResponse_def Let_def persist_aiRequests split: option.splits sum.splits)

lemma tryBlock_eq:
  "sendToAiService env v = (events, st) \<Longrightarrow>
   tryBlock env v =
     (case st of
        Return \<Rightarrow> (events, None)
      | Throw error \<Rightarrow> (events, Some (error, 0))
      | Continue r \<Rightarrow>
          (events @ [Log Info ''Received response from AI service''] @ fst (afterResponse env v r),
           snd (afterResponse env v r)))"
  by (simp add: tryBlock_def split: step.splits prod.splits)

lemma run_aiRequests:
  assumes "validate object = Inr v" and "sendToAiService env v = (events, st)"
  shows "aiRequests (onFileUpload env object) = aiRequests events"
  using assms
  by (cases st)
     (simp_all add: accepted_run tryBlock_eq aiRequests_append catchBlock_aiRequests
        afterResponse_aiRequests split: option.splits prod.splits)

lemma run_with_response:
  assumes "aiRequests (onFileUpload env object) = [req]" and "post env req = Inr aiData"
  shows "\<exists>v pre. validate object = Inr v \<and> writes pre = [] \<and>
           onFileUpload env object =
             pre @ fst (afterResponse env v (Some aiData))
               @ (case snd (afterResponse env v (Some aiData)) of
                    None \<Rightarrow> []
                  | Some (error, clock) \<Rightarrow> catchBlock env v clock error)"
proof (cases "validate object")
  case (Inl r)
  then show ?thesis using assms(1) by (simp add: rejected_run split: if_splits)
next
  case (Inr v)
  obtain events st where s: "sendToAiService env v = (events, st)"
    by (cases "sendToAiService env v")
  have req: "aiRequests events = [req]"
    using run_aiRequests [OF Inr s] assms(1) by simp
  note c = sendToAiService_cases [OF s]
  have "st = Continue (Some aiData)"
  proof (cases st)
    case (Continue r)
    with c req assms(2) show ?thesis by auto
  next
    case Return
    with c req show ?thesis by simp
  next
    case (Throw e)
    with c req assms(2) show ?thesis by auto
  qed
  then have "onFileUpload env object =
      ([Log Info (processingMessage object)] @ events
         @ [Log Info ''Received response from AI service''])
      @ fst (afterResponse env v (Some aiData))
      @ (case snd (afterResponse env v (Some aiData)) of
                    None \<Rightarrow> []
                  | Some (error, clock) \<Rightarrow> catchBlock env v clock error)"
    by (simp add: accepted_run [OF Inr] tryBlock_eq [OF s])
  moreover have "writes ([Log Info (processingMessage object)] @ events
         @ [Log Info ''Received response from AI service'']) = []"
    using c by (simp add: writes_def)
  ultimately show ?thesis using Inr by blast
qed

section \<open>Properties of the validation\<close>

lemma rejected_no_effects:
  assumes "validate object = Inl r"
  shows "aiRequests (onFileUpload env object) = [] \<and> writes (onFileUpload env object) = []
         \<and> ((\<exists>message. onFileUpload env object = [Log Error message])
            \<or> (\<exists>processing message.
                  onFileUpload env object = [Log Info processing, Log Error message]))"
  using assms by (simp add: rejected_run writes_def)

lemma exceeds_parsed:
  assumes "parseInt s = Some n" and "n > m"
  shows "exceeds (Some s) m"
proof -
  have "parseInt [] = None"
    by (simp add: parseInt_def trimStart_def parseDigits_def)
  with assms(1) have "s \<noteq> []" by auto
  with assms show ?thesis by (simp add: exceeds_def)
qed

lemma max_sizes: "maxDocumentSize = 10485760" "maxAudioSize = 52428800"
  by (simp_all add: maxDocumentSize_def maxAudioSize_def)

lemma validate_cases:
  "validate object =
     (case extractIds (obj_name object) of
        None \<Rightarrow> Inl BadPath
      | Some ids \<Rightarrow>
          if fst ids = [] \<or> snd ids = [] then Inl BadPath
          else if strOr (obj_name object) [] = [] \<or> strOr (obj_contentType object) [] = []
          then Inl MissingPathOrType
          else if snd ids = ''documents'' then
            (if exceeds (obj_size object) maxDocumentSize
             then Inl (DocumentTooLarge (strOr (obj_size object) []))
             else if \<not> list_ex (\<lambda>t. startsWith (strOr (obj_contentType object) []) t) allowedDocumentTypes
             then Inl (UnsupportedDocumentType (strOr (obj_contentType object) []))
             else if \<not> List.member allowedDocumentExtensions (fileExtension (strOr (obj_name object) []))
             then Inl (InvalidDocumentExtension (fileExtension (strOr (obj_name object) [])))
             else Inr \<lparr> up_bucket = obj_bucket object, up_filePath = strOr (obj_name object) [],
                        up_contentType = strOr (obj_contentType object) [],
                        up_pathParts = split (CHR ''/'') (strOr (obj_name object) []),
                        up_userId = fst ids, up_fileType = snd ids \<rparr>)
          else if snd ids = ''audio'' then
            (if exceeds (obj_size object) maxAudioSize
             then Inl (AudioTooLarge (strOr (obj_size object) []))
             else if \<not> list_ex (\<lambda>t. startsWith (strOr (obj_contentType object) []) t) allowedAudioTypes
             then Inl (UnsupportedAudioType (strOr (obj_contentType object) []))
             else if \<not> List.member allowedAudioExtensions (fileExtension (strOr (obj_name object) []))
             then Inl (InvalidAudioExtension (fileExtension (strOr (obj_name object) [])))
             else Inr \<lparr> up_bucket = obj_bucket object, up_filePath = strOr (obj_name object) [],
                        up_contentType = strOr (obj_contentType object) [],
                        up_pathParts = split (CHR ''/'') (strOr (obj_name object) []),
                        up_userId = fst ids, up_fileType = snd ids \<rparr>)
          else Inl (UnknownFileType (snd ids)))"
  by (simp add: validate_def Let_def split: option.splits prod.splits)

lemma validate_document_too_large:
  "validate object = Inl (DocumentTooLarge s) \<Longrightarrow> exceeds (obj_size object) maxDocumentSize"
  by (simp add: validate_cases split: option.splits if_splits)

lemma validate_audio_too_large:
  "validate object = Inl (AudioTooLarge s) \<Longrightarrow> exceeds (obj_size object) maxAudioSize"
  by (simp add: validate_cases split: option.splits if_splits)


lemma validate_oversize:
  assumes "extractIds (obj_name object) = Some (userId, fileType)"
      and "(fileType = ''documents'' \<and> exceeds (obj_size object) maxDocumentSize)
           \<or> (fileType = ''audio'' \<and> exceeds (obj_size object) maxAudioSize)"
  shows "\<exists>r. validate object = Inl r"
  using assms by (auto simp: validate_cases)

text \<open>
  Claim C4. When the size field of the event reads as a number above 10 MiB and the file
  type read from the path is \<^verbatim>\<open>documents\<close>, or it reads above 50 MiB and the file type
  is \<^verbatim>\<open>audio\<close>, no request goes to the AI service and nothing is written to the
  database: the run is one error log line, after the \<^verbatim>\<open>Processing\<close> log line when the
  run got as far as line 41.
\<close>

theorem C4_oversize_aborts:
  assumes "obj_size object = Some s" and "parseInt s = Some n"
      and "(uploadKind object = Some ''documents'' \<and> n > 10 * 1024 * 1024)
           \<or> (uploadKind object = Some ''audio'' \<and> n > 50 * 1024 * 1024)"
  shows "aiRequests (onFileUpload env object) = [] \<and> writes (onFileUpload env object) = []
         \<and> ((\<exists>message. onFileUpload env object = [Log Error message])
            \<or> (\<exists>processing message.
                  onFileUpload env object = [Log Info processing, Log Error message]))"
proof -
  from assms(3) obtain userId fileType where
    ids: "extractIds (obj_name object) = Some (userId, fileType)"
    and kind: "uploadKind object = Some fileType"
    by (auto simp: uploadKind_def)
  have "(fileType = ''documents'' \<and> exceeds (obj_size object) maxDocumentSize)
        \<or> (fileType = ''audio'' \<and> exceeds (obj_size object) maxAudioSize)"
    using assms kind exceeds_parsed [OF assms(2)] by (auto simp: max_sizes)
  from validate_oversize [OF ids this] obtain r where "validate object = Inl r" ..
  from rejected_no_effects [OF this] show ?thesis .
qed

lemma run_oversize_document:
  "onFileUpload env (exampleObject\<lparr>obj_size := Some ''10485761''\<rparr>) =
     [Log Info ''Processing documents file for user u1: uploads/documents/u1/notes.txt'',
      Log Error ''Document size 10485761 exceeds maximum allowed size of 10485760 bytes.'']"
  by (simp add: onFileUpload_def processingMessage_def validation_defs string_defs
        exampleObject_def showNat.simps Let_def)

lemma run_oversize_audio:
  "onFileUpload env exampleAudio =
     [Log Info ''Processing audio file for user u1: uploads/audio/u1/lecture.mp3'',
      Log Error ''Audio size 52428801 exceeds maximum allowed size of 52428800 bytes.'']"
  by (simp add: onFileUpload_def processingMessage_def validation_defs string_defs
        exampleAudio_def showNat.simps Let_def)

theorem C4_oversize_witness:
  "obj_size (exampleObject\<lparr>obj_size := Some ''10485761''\<rparr>) = Some ''10485761''
   \<and> parseInt ''10485761'' = Some 10485761
   \<and> uploadKind (exampleObject\<lparr>obj_size := Some ''10485761''\<rparr>) = Some ''documents''
   \<and> aiRequests (onFileUpload (exampleEnv (exampleBody [exampleCard]))
        (exampleObject\<lparr>obj_size := Some ''10485761''\<rparr>)) = []
   \<and> writes (onFileUpload (exampleEnv (exampleBody [exampleCard]))
        (exampleObject\<lparr>obj_size := Some ''10485761''\<rparr>)) = []
   \<and> onFileUpload (exampleEnv (exampleBody [exampleCard]))
        (exampleObject\<lparr>obj_size := Some ''10485761''\<rparr>) =
       [Log Info ''Processing documents file for user u1: uploads/documents/u1/notes.txt'',
        Log Error ''Document size 10485761 exceeds maximum allowed size of 10485760 bytes.'']
   \<and> parseInt ''52428801'' = Some 52428801
   \<and> uploadKind exampleAudio = Some ''audio''
   \<and> aiRequests (onFileUpload (exampleEnv (exampleBody [exampleCard])) exampleAudio) = []
   \<and> writes (onFileUpload (exampleEnv (exampleBody [exampleCard])) exampleAudio) = []
   \<and> onFileUpload (exampleEnv (exampleBody [exampleCard])) exampleAudio =
       [Log Info ''Processing audio file for user u1: uploads/audio/u1/lecture.mp3'',
        Log Error ''Audio size 52428801 exceeds maximum allowed size of 52428800 bytes.'']"
proof -
  have a: "obj_size (exampleObject\<lparr>obj_size := Some ''10485761''\<rparr>) = Some ''10485761''"
    by simp
  have b: "parseInt ''10485761'' = Some 10485761"
    by (simp add: string_defs)
  have k: "uploadKind (exampleObject\<lparr>obj_size := Some ''10485761''\<rparr>) = Some ''documents''"
    by (simp add: uploadKind_def extractIds_def exampleObject_def)
  have c: "(uploadKind (exampleObject\<lparr>obj_size := Some ''10485761''\<rparr>) = Some ''documents''
              \<and> (10485761::int) > 10 * 1024 * 1024)
           \<or> (uploadKind (exampleObject\<lparr>obj_size := Some ''10485761''\<rparr>) = Some ''audio''
              \<and> (10485761::int) > 50 * 1024 * 1024)"
    using k by simp
  have a': "obj_size exampleAudio = Some ''52428801''"
    by (simp add: exampleAudio_def)
  have b': "parseInt ''52428801'' = Some 52428801"
    by (simp add: string_defs)
  have k': "uploadKind exampleAudio = Some ''audio''"
    by (simp add: uploadKind_def extractIds_def exampleAudio_def)
  have c': "(uploadKind exampleAudio = Some ''documents'' \<and> (52428801::int) > 10 * 1024 * 1024)
           \<or> (uploadKind exampleAudio = Some ''audio'' \<and> (52428801::int) > 50 * 1024 * 1024)"
    using k' by simp
  have d: "aiRequests (onFileUpload (exampleEnv (exampleBody [exampleCard]))
        (exampleObject\<lparr>obj_size := Some ''10485761''\<rparr>)) = []
     \<and> writes (onFileUpload (exampleEnv (exampleBody [exampleCard]))
        (exampleObject\<lparr>obj_size := Some ''10485761''\<rparr>)) = []"
    using C4_oversize_aborts [OF a b c, of "exampleEnv (exampleBody [exampleCard])"] by blast
  have d': "aiRequests (onFileUpload (exampleEnv (exampleBody [exampleCard])) exampleAudio) = []
     \<and> writes (onFileUpload (exampleEnv (exampleBody [exampleCard])) exampleAudio) = []"
    using C4_oversize_aborts [OF a' b' c', of "exampleEnv (exampleBody [exampleCard])"] by blast
  from a b k d b' k' d' run_oversize_document run_oversize_audio show ?thesis by blast
qed

lemma exceeds_absent: "exceeds None m = False" "exceeds (Some []) m = False"
  by (simp_all add: exceeds_def)

text \<open>
  Claim C10. When the size field is absent or empty, validation never ends with a size
  rejection, for either kind; once the path and the content type are there, its outcome is
  that of the content-type check followed by the extension check of the kind.
\<close>

theorem C10_absent_size_skips_ceiling:
  assumes "obj_size object = None \<or> obj_size object = Some []"
  shows "(\<forall>s. validate object \<noteq> Inl (DocumentTooLarge s)
              \<and> validate object \<noteq> Inl (AudioTooLarge s))
       \<and> (\<forall>p ct userId fileType.
             obj_name object = Some p \<and> extractIds (Some p) = Some (userId, fileType)
             \<and> userId \<noteq> [] \<and> obj_contentType object = Some ct \<and> ct \<noteq> [] \<longrightarrow>
             (fileType = ''documents'' \<longrightarrow>
                validate object =
                  (if \<not> list_ex (\<lambda>t. startsWith ct t) allowedDocumentTypes
                   then Inl (UnsupportedDocumentType ct)
                   else if \<not> List.member allowedDocumentExtensions (fileExtension p)
                   then Inl (InvalidDocumentExtension (fileExtension p))
                   else Inr \<lparr> up_bucket = obj_bucket object, up_filePath = p,
                              up_contentType = ct, up_pathParts = split (CHR ''/'') p,
                              up_userId = userId, up_fileType = fileType \<rparr>))
           \<and> (fileType = ''audio'' \<longrightarrow>
                validate object =
                  (if \<not> list_ex (\<lambda>t. startsWith ct t) allowedAudioTypes
                   then Inl (UnsupportedAudioType ct)
                   else if \<not> List.member allowedAudioExtensions (fileExtension p)
                   then Inl (InvalidAudioExtension (fileExtension p))
                   else Inr \<lparr> up_bucket = obj_bucket object, up_filePath = p,
                              up_contentType = ct, up_pathParts = split (CHR ''/'') p,
                              up_userId = userId, up_fileType = fileType \<rparr>)))"
proof -
  have e: "\<And>m. exceeds (obj_size object) m = False"
    using assms exceeds_absent by auto
  have p: "\<And>u k. extractIds (obj_name object) = Some (u, k) \<Longrightarrow> obj_name object \<noteq> Some []"
    by (auto simp: extractIds_def)
  show ?thesis
  proof (intro conjI allI impI)
    fix s
    show "validate object \<noteq> Inl (DocumentTooLarge s)"
      using validate_document_too_large [of object s] e by auto
    show "validate object \<noteq> Inl (AudioTooLarge s)"
      using validate_audio_too_large [of object s] e by auto
  next
    fix p ct userId fileType
    assume h: "obj_name object = Some p \<and> extractIds (Some p) = Some (userId, fileType)
             \<and> userId \<noteq> [] \<and> obj_contentType object = Some ct \<and> ct \<noteq> []"
       and d: "fileType = ''documents''"
    have "p \<noteq> []" using h by (auto simp: extractIds_def)
    with h d show "validate object =
                  (if \<not> list_ex (\<lambda>t. startsWith ct t) allowedDocumentTypes
                   then Inl (UnsupportedDocumentType ct)
                   else if \<not> List.member allowedDocumentExtensions (fileExtension p)
                   then Inl (InvalidDocumentExtension (fileExtension p))
                   else Inr \<lparr> up_bucket = obj_bucket object, up_filePath = p,
                              up_contentType = ct, up_pathParts = split (CHR ''/'') p,
                              up_userId = userId, up_fileType = fileType \<rparr>)"
      by (simp add: validate_cases e strOr_def)
  next
    fix p ct userId fileType
    assume h: "obj_name object = Some p \<and> extractIds (Some p) = Some (userId, fileType)
             \<and> userId \<noteq> [] \<and> obj_contentType object = Some ct \<and> ct \<noteq> []"
       and d: "fileType = ''audio''"
    have "p \<noteq> []" using h by (auto simp: extractIds_def)
    with h d show "validate object =
                  (if \<not> list_ex (\<lambda>t. startsWith ct t) allowedAudioTypes
                   then Inl (UnsupportedAudioType ct)
                   else if \<not> List.member allowedAudioExtensions (fileExtension p)
                   then Inl (InvalidAudioExtension (fileExtension p))
                   else Inr \<lparr> up_bucket = obj_bucket object, up_filePath = p,
                              up_contentType = ct, up_pathParts = split (CHR ''/'') p,
                              up_userId = userId, up_fileType = fileType \<rparr>)"
      by (simp add: validate_cases e strOr_def)
  qed
qed

lemma validate_bad_path:
  assumes "obj_name object = None \<or> (\<exists>p. obj_name object = Some p \<and> \<not> pathAccepted p)"
  shows "\<exists>r. validate object = Inl r"
proof (cases "extractIds (obj_name object)")
  case None
  then show ?thesis by (simp add: validate_cases)
next
  case (Some ids)
  then obtain p where p: "obj_name object = Some p"
    by (cases "obj_name object") (auto simp: extractIds_def)
  with assms have na: "\<not> pathAccepted p" by simp
  from Some p have parts: "length (split (CHR ''/'') p) \<ge> 4" "split (CHR ''/'') p ! 0 = ''uploads''"
    and ids: "ids = (split (CHR ''/'') p ! 2, split (CHR ''/'') p ! 1)"
    by (auto simp: extractIds_def Let_def split: if_splits)
  from na parts have "fst ids = [] \<or> (snd ids \<noteq> ''documents'' \<and> snd ids \<noteq> ''audio'')"
    by (auto simp: pathAccepted_def Let_def ids)
  then show ?thesis
    using Some by (auto simp: validate_cases)
qed

text \<open>
  Claim C3, as the code has it. When the event has no path, or its path has fewer than four
  segments, or does not start with \<^verbatim>\<open>uploads\<close>, or has a kind other than \<^verbatim>\<open>documents\<close> and
  \<^verbatim>\<open>audio\<close>, or an empty user id, no request goes to the AI service and no deck or card is
  written: the run is one error log line, after the \<^verbatim>\<open>Processing\<close> log line when the run
  got as far as line 41 (a path of four segments or more with an unknown kind).
\<close>

theorem C3_bad_path_aborts:
  assumes "obj_name object = None \<or> (\<exists>p. obj_name object = Some p \<and> \<not> pathAccepted p)"
  shows "aiRequests (onFileUpload env object) = [] \<and> writes (onFileUpload env object) = []
         \<and> ((\<exists>message. onFileUpload env object = [Log Error message])
            \<or> (\<exists>processing message.
                  onFileUpload env object = [Log Info processing, Log Error message]))"
proof -
  from validate_bad_path [OF assms] obtain r where "validate object = Inl r" ..
  from rejected_no_effects [OF this] show ?thesis .
qed

lemma run_short_path:
  "onFileUpload env (exampleObject\<lparr>obj_name := Some ''uploads/notes.txt''\<rparr>) =
     [Log Error ''Could not extract user ID or file type from file path. File path should be: uploads/{type}/{userId}/{filename}'']"
  by (simp add: onFileUpload_def validation_defs exampleObject_def Let_def)

lemma run_unknown_kind:
  "onFileUpload env exampleImage =
     [Log Info ''Processing images file for user u1: uploads/images/u1/a.png'',
      Log Error ''Unknown file type: images. Only 'documents' and 'audio' are supported.'']"
  by (simp add: onFileUpload_def processingMessage_def validation_defs string_defs
        exampleImage_def Let_def)

theorem C3_bad_path_witness:
  "\<not> pathAccepted ''uploads/notes.txt''
   \<and> aiRequests (onFileUpload (exampleEnv (exampleBody [exampleCard]))
        (exampleObject\<lparr>obj_name := Some ''uploads/notes.txt''\<rparr>)) = []
   \<and> writes (onFileUpload (exampleEnv (exampleBody [exampleCard]))
        (exampleObject\<lparr>obj_name := Some ''uploads/notes.txt''\<rparr>)) = []
   \<and> onFileUpload (exampleEnv (exampleBody [exampleCard]))
        (exampleObject\<lparr>obj_name := Some ''uploads/notes.txt''\<rparr>) =
       [Log Error ''Could not extract user ID or file type from file path. File path should be: uploads/{type}/{userId}/{filename}'']
   \<and> \<not> pathAccepted ''uploads/images/u1/a.png''
   \<and> aiRequests (onFileUpload (exampleEnv (exampleBody [exampleCard])) exampleImage) = []
   \<and> writes (onFileUpload (exampleEnv (exampleBody [exampleCard])) exampleImage) = []
   \<and> onFileUpload (exampleEnv (exampleBody [exampleCard])) exampleImage =
       [Log Info ''Processing images file for user u1: uploads/images/u1/a.png'',
        Log Error ''Unknown file type: images. Only 'documents' and 'audio' are supported.'']"
proof -
  have na: "\<not> pathAccepted ''uploads/notes.txt''"
    by (simp add: pathAccepted_def)
  have h: "obj_name (exampleObject\<lparr>obj_name := Some ''uploads/notes.txt''\<rparr>) = None
           \<or> (\<exists>p. obj_name (exampleObject\<lparr>obj_name := Some ''uploads/notes.txt''\<rparr>) = Some p
                  \<and> \<not> pathAccepted p)"
    using na by simp
  have na': "\<not> pathAccepted ''uploads/images/u1/a.png''"
    by (simp add: pathAccepted_def)
  have h': "obj_name exampleImage = None
           \<or> (\<exists>p. obj_name exampleImage = Some p \<and> \<not> pathAccepted p)"
    using na' by (simp add: exampleImage_def)
  have d: "aiRequests (onFileUpload (exampleEnv (exampleBody [exampleCard]))
        (exampleObject\<lparr>obj_name := Some ''uploads/notes.txt''\<rparr>)) = []
     \<and> writes (onFileUpload (exampleEnv (exampleBody [exampleCard]))
        (exampleObject\<lparr>obj_name := Some ''uploads/notes.txt''\<rparr>)) = []"
    using C3_bad_path_aborts [OF h, of "exampleEnv (exampleBody [exampleCard])"] by blast
  have d': "aiRequests (onFileUpload (exampleEnv (exampleBody [exampleCard])) exampleImage) = []
     \<and> writes (onFileUpload (exampleEnv (exampleBody [exampleCard])) exampleImage) = []"
    using C3_bad_path_aborts [OF h', of "exampleEnv (exampleBody [exampleCard])"] by blast
  from na d na' d' run_short_path run_unknown_kind show ?thesis by blast
qed

lemma run_nested_path:
  "onFileUpload (exampleEnv (exampleBody [exampleCard]))
     (exampleObject\<lparr>obj_name := Some ''uploads/documents/u1/sub/notes.txt''\<rparr>) =
   [Log Info ''Processing documents file for user u1: uploads/documents/u1/sub/notes.txt'',
    Download ''bucket'' ''uploads/documents/u1/sub/notes.txt'',
    Log Info ''Sending document text to AI service for processing...'',
    AiPost (PostProcess ''Photosynthesis turns light into sugar.'' 15),
    Log Info ''Received response from AI service'',
    DeckSet ''u1_notes_1700000000000''
     \<lparr>deck_title = ''notes.txt'', deck_userId = ''u1'',
        deck_createdAt = ServerTimestamp,
        deck_updatedAt = Some ServerTimestamp, deck_status = ''completed'',
        deck_total_cards = 1, deck_source_type = Some ''documents'',
        deck_model_used = Some (JStr ''gemini-1.5-pro-latest''),
        deck_transcription = None, deck_audio_info = None,
        deck_error_message = None\<rparr>,
    BatchCommit ''u1_notes_1700000000000''
     [(''card_1'',
       \<lparr>cd_id = JStr ''card_1'', cd_type = JStr ''qa'',
          cd_question = JStr ''Q1'', cd_answer = JStr ''A1'',
          cd_source_text = JStr ''Source text not available'',
          cd_difficulty = JStr ''medium'', cd_created_at = ServerTimestamp\<rparr>)],
    Log Info ''Successfully processed file and saved 1 flashcards to deck: u1_notes_1700000000000'']"
  by (simp add: run_defs validation_defs string_defs exampleEnv_def exampleBody_def
        exampleCard_def exampleObject_def showNat.simps)

text \<open>Claim C3 as written fails on a path of five segments: it is not of the four-segment
  shape, and the run writes a deck and a card.\<close>

theorem C3_five_segments_counterexample:
  "\<not> specPathShape ''uploads/documents/u1/sub/notes.txt''
   \<and> map fst (deckWrites (onFileUpload (exampleEnv (exampleBody [exampleCard]))
        (exampleObject\<lparr>obj_name := Some ''uploads/documents/u1/sub/notes.txt''\<rparr>)))
       = [''u1_notes_1700000000000'']
   \<and> cardDocuments (onFileUpload (exampleEnv (exampleBody [exampleCard]))
        (exampleObject\<lparr>obj_name := Some ''uploads/documents/u1/sub/notes.txt''\<rparr>))
       = {(''u1_notes_1700000000000'', ''card_1'')}"
  by (simp add: run_nested_path specPathShape_def cardDocuments_def documentPath_def
        segments_def)

lemma example_valid:
  "validate (exampleObject\<lparr>obj_size := sz\<rparr>) =
     (if exceeds sz maxDocumentSize then Inl (DocumentTooLarge (strOr sz []))
      else Inr \<lparr> up_bucket = ''bucket'', up_filePath = ''uploads/documents/u1/notes.txt'',
                 up_contentType = ''text/plain'',
                 up_pathParts = [''uploads'', ''documents'', ''u1'', ''notes.txt''],
                 up_userId = ''u1'', up_fileType = ''documents'' \<rparr>)"
  by (simp add: exampleObject_def validate_def extractIds_def fileExtension_def
        allowedDocumentTypes_def allowedDocumentExtensions_def toLowerChar_def
        upperCaseLetters_def lowerCaseLetters_def toLowerCase_def
        startsWith_def lastIndexOf_def substring_def strOr_def Let_def)

theorem C10_absent_size_witness:
  "(obj_size (exampleObject\<lparr>obj_size := None\<rparr>) = None
      \<or> obj_size (exampleObject\<lparr>obj_size := None\<rparr>) = Some [])
   \<and> validate (exampleObject\<lparr>obj_size := None\<rparr>) \<noteq> Inl (DocumentTooLarge [])
   \<and> validate (exampleObject\<lparr>obj_size := None\<rparr>) =
        Inr \<lparr> up_bucket = ''bucket'', up_filePath = ''uploads/documents/u1/notes.txt'',
              up_contentType = ''text/plain'',
              up_pathParts = [''uploads'', ''documents'', ''u1'', ''notes.txt''],
              up_userId = ''u1'', up_fileType = ''documents'' \<rparr>"
proof -
  have a: "obj_size (exampleObject\<lparr>obj_size := None\<rparr>) = None
      \<or> obj_size (exampleObject\<lparr>obj_size := None\<rparr>) = Some []"
    by simp
  have n: "obj_name (exampleObject\<lparr>obj_size := None\<rparr>) = Some ''uploads/documents/u1/notes.txt''"
    by (simp add: exampleObject_def)
  have c: "obj_contentType (exampleObject\<lparr>obj_size := None\<rparr>) = Some ''text/plain''"
    by (simp add: exampleObject_def)
  have b: "obj_bucket (exampleObject\<lparr>obj_size := None\<rparr>) = ''bucket''"
    by (simp add: exampleObject_def)
  have i: "extractIds (Some ''uploads/documents/u1/notes.txt'') = Some (''u1'', ''documents'')"
    by (simp add: extractIds_def)
  have t: "list_ex (\<lambda>t. startsWith ''text/plain'' t) allowedDocumentTypes"
    by (simp add: allowedDocumentTypes_def startsWith_def)
  have x: "List.member allowedDocumentExtensions (fileExtension ''uploads/documents/u1/notes.txt'')"
    by (simp add: allowedDocumentExtensions_def fileExtension_def toLowerChar_def
          upperCaseLetters_def lowerCaseLetters_def toLowerCase_def
          lastIndexOf_def substring_def)
  have s: "split (CHR ''/'') ''uploads/documents/u1/notes.txt''
             = [''uploads'', ''documents'', ''u1'', ''notes.txt'']"
    by simp
  note th = C10_absent_size_skips_ceiling [OF a]
  from th have "validate (exampleObject\<lparr>obj_size := None\<rparr>) \<noteq> Inl (DocumentTooLarge [])"
    by blast
  moreover from th n c b i t x s
  have "validate (exampleObject\<lparr>obj_size := None\<rparr>) =
        Inr \<lparr> up_bucket = ''bucket'', up_filePath = ''uploads/documents/u1/notes.txt'',
              up_contentType = ''text/plain'',
              up_pathParts = [''uploads'', ''documents'', ''u1'', ''notes.txt''],
              up_userId = ''u1'', up_fileType = ''documents'' \<rparr>"
    by simp
  ultimately show ?thesis using a by blast
qed

section \<open>Properties of the response handling and the persistence\<close>

lemma afterResponse_successful:
  assumes "getProp aiData ''success'' = Inr s" and "truthy s"
      and "getProp aiData ''flashcards'' = Inr (JArr cs)"
  shows "afterResponse env v (Some aiData) =
           (if cs = [] then ([Log Warn ''AI service returned no flashcards''], None)
            else persist env v aiData cs)"
  using assms by (simp add: afterResponse_def readProp_def Let_def)

text \<open>
  Claim C5. When the run has sent its request and the AI service has answered with a body
  whose success flag is truthy and whose flashcards field is the empty list, the run ends
  with the warning \<^verbatim>\<open>AI service returned no flashcards\<close> and writes nothing: no deck, not
  even a failed one, and no card.
\<close>

theorem C5_empty_list_soft_failure:
  assumes "aiRequests (onFileUpload env object) = [req]" and "post env req = Inr aiData"
      and "getProp aiData ''success'' = Inr s" and "truthy s"
      and "getProp aiData ''flashcards'' = Inr (JArr [])"
  shows "writes (onFileUpload env object) = []
       \<and> deckWrites (onFileUpload env object) = []
       \<and> cardDocuments (onFileUpload env object) = {}
       \<and> last (onFileUpload env object) = Log Warn ''AI service returned no flashcards''"
proof -
  from run_with_response [OF assms(1,2)] obtain v pre where
    pre: "writes pre = []"
    and tr: "onFileUpload env object =
             pre @ fst (afterResponse env v (Some aiData))
               @ (case snd (afterResponse env v (Some aiData)) of
                    None \<Rightarrow> []
                  | Some (error, clock) \<Rightarrow> catchBlock env v clock error)"
    by blast
  have "afterResponse env v (Some aiData) = ([Log Warn ''AI service returned no flashcards''], None)"
    using afterResponse_successful [OF assms(3,4,5)] by simp
  with tr have eq: "onFileUpload env object = pre @ [Log Warn ''AI service returned no flashcards'']"
    by simp
  have w: "writes (onFileUpload env object) = []"
    using pre by (simp add: eq writes_def)
  show ?thesis
    using w writes_empty_deckWrites [OF w] writes_empty_batches [OF w]
    by (simp add: cardDocuments_def eq)
qed

lemma run_empty_list:
  "onFileUpload (exampleEnv (exampleBody [])) exampleObject =
   [Log Info ''Processing documents file for user u1: uploads/documents/u1/notes.txt'',
    Download ''bucket'' ''uploads/documents/u1/notes.txt'',
    Log Info ''Sending document text to AI service for processing...'',
    AiPost (PostProcess ''Photosynthesis turns light into sugar.'' 15),
    Log Info ''Received response from AI service'',
    Log Warn ''AI service returned no flashcards'']"
  by (simp add: run_defs validation_defs string_defs exampleEnv_def exampleBody_def
        exampleObject_def)

theorem C5_empty_list_witness:
  "aiRequests (onFileUpload (exampleEnv (exampleBody [])) exampleObject)
     = [PostProcess ''Photosynthesis turns light into sugar.'' 15]
   \<and> post (exampleEnv (exampleBody [])) (PostProcess ''Photosynthesis turns light into sugar.'' 15)
     = Inr (exampleBody [])
   \<and> getProp (exampleBody []) ''success'' = Inr (JBool True) \<and> truthy (JBool True)
   \<and> getProp (exampleBody []) ''flashcards'' = Inr (JArr [])
   \<and> writes (onFileUpload (exampleEnv (exampleBody [])) exampleObject) = []
   \<and> deckWrites (onFileUpload (exampleEnv (exampleBody [])) exampleObject) = []"
proof -
  have a: "aiRequests (onFileUpload (exampleEnv (exampleBody [])) exampleObject)
             = [PostProcess ''Photosynthesis turns light into sugar.'' 15]"
    by (simp add: run_empty_list)
  have b: "post (exampleEnv (exampleBody []))
             (PostProcess ''Photosynthesis turns light into sugar.'' 15) = Inr (exampleBody [])"
    by (simp add: exampleEnv_def)
  have c: "getProp (exampleBody []) ''success'' = Inr (JBool True)"
    by (simp add: exampleBody_def)
  have d: "truthy (JBool True)"
    by simp
  have e: "getProp (exampleBody []) ''flashcards'' = Inr (JArr [])"
    by (simp add: exampleBody_def)
  show ?thesis
    using a b c d e C5_empty_list_soft_failure [OF a b c d e] by simp
qed


lemma buildCardData_object:
  "buildCardData index (JObj kvs) =
     Inr \<lparr> cd_id = fieldOr kvs ''id'' (JStr (''card_'' @ showNat (index + 1))),
           cd_type = fieldOr kvs ''type'' (JStr ''qa''),
           cd_question = fieldOr kvs ''question'' (JStr ''No question generated''),
           cd_answer = fieldOr kvs ''answer'' (JStr ''No answer provided''),
           cd_source_text = fieldOr kvs ''source_text'' (JStr ''Source text not available''),
           cd_difficulty = fieldOr kvs ''difficulty'' (JStr ''medium''),
           cd_created_at = ServerTimestamp \<rparr>"
  by (simp add: buildCardData_def andThen_def fieldOr_def orElse_def split: option.splits)

lemma buildBatch_length: "buildBatch n cs = Inr ws \<Longrightarrow> length ws = length cs"
  by (induction cs arbitrary: n ws) (auto split: sum.splits)

lemma buildBatch_nth:
  "buildBatch n cs = Inr ws \<Longrightarrow> i < length cs \<Longrightarrow>
   buildCardData (n + i) (cs ! i) = Inr (snd (ws ! i))
   \<and> cardRef (cd_id (snd (ws ! i))) = Inr (fst (ws ! i))"
proof (induction cs arbitrary: n ws i)
  case Nil
  then show ?case by simp
next
  case (Cons c cs)
  from Cons.prems(1) obtain cd r rest where
    c: "buildCardData n c = Inr cd" and r: "cardRef (cd_id cd) = Inr r"
    and rest: "buildBatch (n + 1) cs = Inr rest" and ws: "ws = (r, cd) # rest"
    by (auto split: sum.splits)
  show ?case
  proof (cases i)
    case 0
    with c r ws show ?thesis by simp
  next
    case (Suc j)
    with Cons.prems(2) have "j < length cs" by simp
    from Cons.IH [OF rest this] Suc ws show ?thesis by simp
  qed
qed

lemma document_count: "isDocument (3 + n) = odd n"
  by (auto simp: isDocument_def)

lemma cardRef_names: "namesDocument s \<Longrightarrow> cardRef (JStr s) = Inr s"
  by (simp add: cardRef_def namesDocument_def document_count)

lemma cardRef_Inr: "cardRef v = Inr r \<Longrightarrow> v = JStr r \<and> namesDocument r"
  by (cases v) (auto simp: cardRef_def namesDocument_def document_count split: if_splits)

lemma partialCard_id:
  assumes "partialCard (JObj kvs)"
  shows "\<exists>s. namesDocument s \<and> fieldOr kvs ''id'' (JStr (''card_'' @ showNat k)) = JStr s"
proof (cases "map_of kvs ''id''")
  case None
  then show ?thesis
    using fallback_names_document by (simp add: fieldOr_def)
next
  case (Some v)
  show ?thesis
  proof (cases "truthy v")
    case False
    with Some show ?thesis
      using fallback_names_document by (simp add: fieldOr_def)
  next
    case True
    with assms Some have "namesDocumentValue (Some v)" by simp
    then obtain s where "v = JStr s" "namesDocument s"
      by (cases "Some v" rule: namesDocumentValue.cases) auto
    with Some True show ?thesis by (simp add: fieldOr_def)
  qed
qed

lemma partialCard_ref:
  assumes "partialCard c"
  shows "\<exists>cd r. buildCardData n c = Inr cd \<and> cardRef (cd_id cd) = Inr r"
proof -
  from assms obtain kvs where c: "c = JObj kvs"
    by (cases c) auto
  from partialCard_id [of kvs "n + 1"] assms c obtain s where
    "namesDocument s" "fieldOr kvs ''id'' (JStr (''card_'' @ showNat (n + 1))) = JStr s"
    by blast
  then show ?thesis
    using c by (simp add: buildCardData_object cardRef_names)
qed

lemma buildBatch_partial:
  "\<forall>c \<in> set cs. partialCard c \<Longrightarrow> \<exists>ws. buildBatch n cs = Inr ws"
proof (induction cs arbitrary: n)
  case Nil
  then show ?case by simp
next
  case (Cons c cs)
  from Cons.prems have "partialCard c" by simp
  from partialCard_ref [OF this] obtain cd r where
    "buildCardData n c = Inr cd" "cardRef (cd_id cd) = Inr r" by blast
  moreover from Cons.IH [of "n + 1"] Cons.prems obtain ws where
    "buildBatch (n + 1) cs = Inr ws" by auto
  ultimately show ?case by simp
qed

lemma wellFormed_id_field:
  assumes "wellFormedCard c"
  shows "\<exists>kvs s. c = JObj kvs \<and> map_of kvs ''id'' = Some (JStr s) \<and> namesDocument s
           \<and> idOf c = s"
proof -
  from assms obtain kvs where c: "c = JObj kvs"
    by (cases c) auto
  with assms have "namesDocumentValue (map_of kvs ''id'')" by simp
  then obtain s where s: "map_of kvs ''id'' = Some (JStr s)" "namesDocument s"
    by (cases "map_of kvs ''id''" rule: namesDocumentValue.cases) auto
  then have "idOf (JObj kvs) = s" by simp
  with c s show ?thesis by blast
qed

lemma wellFormed_partial:
  assumes "wellFormedCard c"
  shows "partialCard c"
proof -
  from wellFormed_id_field [OF assms] obtain kvs s where
    "c = JObj kvs" "map_of kvs ''id'' = Some (JStr s)" "namesDocument s"
    by blast
  then show ?thesis by simp
qed

lemma wellFormed_id:
  assumes "wellFormedCard c" and "buildCardData n c = Inr cd" and "cardRef (cd_id cd) = Inr r"
  shows "r = idOf c"
proof -
  from wellFormed_id_field [OF assms(1)] obtain kvs s where
    c: "c = JObj kvs" and i: "map_of kvs ''id'' = Some (JStr s)"
    and n: "namesDocument s" and o: "idOf c = s"
    by blast
  from n have "s \<noteq> []" by (simp add: namesDocument_def)
  with i have "fieldOr kvs ''id'' (JStr (''card_'' @ showNat (n + 1))) = JStr s"
    by (simp add: fieldOr_def)
  with assms(2) c have "cd_id cd = JStr s"
    by (auto simp: buildCardData_object)
  with assms(3) cardRef_Inr [of "JStr s" r] o show ?thesis by simp
qed

lemma buildBatch_wellFormed_ids:
  assumes "buildBatch n cs = Inr ws" and "\<forall>c \<in> set cs. wellFormedCard c"
  shows "map fst ws = map idOf cs"
proof (rule nth_equalityI)
  show "length (map fst ws) = length (map idOf cs)"
    using buildBatch_length [OF assms(1)] by simp
next
  fix i assume "i < length (map fst ws)"
  then have i: "i < length cs" using buildBatch_length [OF assms(1)] by simp
  with assms(2) have wf: "wellFormedCard (cs ! i)" by simp
  from buildBatch_nth [OF assms(1) i] wellFormed_id [OF wf]
  have "fst (ws ! i) = idOf (cs ! i)" by blast
  with i buildBatch_length [OF assms(1)]
  show "map fst ws ! i = map idOf cs ! i" by simp
qed
lemma persist_applied:
  assumes "\<forall>i d. firestoreSet env i d = None" and "\<forall>i ws. batchCommit env i ws = None"
      and "buildBatch 0 cs = Inr ws"
  shows "\<exists>deckId message.
           persist env v aiData cs =
             ([DeckSet deckId (buildDeckData v aiData (length cs)), BatchCommit deckId ws,
               Log Info message], None)"
  using assms by (simp add: persist_def Let_def split: prod.splits)

lemma persist_shape:
  assumes "persist env v aiData cs = (events, thrown)"
  shows "(batches events = [] \<or> (\<exists>deckId ws. batches events = [(deckId, ws)] \<and> buildBatch 0 cs = Inr ws))
       \<and> (\<forall>w \<in> set (deckWrites events). snd w = buildDeckData v aiData (length cs))"
  using assms
  by (auto simp: persist_def Let_def split: prod.splits option.splits sum.splits)

lemma catchBlock_deckWrites:
  "\<forall>w \<in> set (deckWrites (catchBlock env v clock e)). snd w = failedDeckData v e"
  by (simp add: catchBlock_def Let_def split: prod.splits option.splits)

lemma run_successful_response:
  assumes "aiRequests (onFileUpload env object) = [req]" and "post env req = Inr aiData"
      and "getProp aiData ''success'' = Inr s" and "truthy s"
      and "getProp aiData ''flashcards'' = Inr (JArr cs)" and "cs \<noteq> []"
  shows "\<exists>v pre. validate object = Inr v \<and> writes pre = [] \<and>
           onFileUpload env object =
             pre @ fst (persist env v aiData cs)
               @ (case snd (persist env v aiData cs) of
                    None \<Rightarrow> []
                  | Some (error, clock) \<Rightarrow> catchBlock env v clock error)"
  using run_with_response [OF assms(1,2)] afterResponse_successful [OF assms(3,4,5)] assms(6)
  by simp


lemma card_documents_single:
  assumes "batches tr = [(deckId, ws)]"
  shows "cardDocuments tr = set (map (\<lambda>w. (deckId, documentPath (fst w))) ws)"
  using assms by (simp add: cardDocuments_def case_prod_beta)

lemma run_two_cards:
  "onFileUpload (exampleEnv (exampleBody [fullCard ''c1'', fullCard ''c2''])) exampleObject =
   [Log Info ''Processing documents file for user u1: uploads/documents/u1/notes.txt'',
    Download ''bucket'' ''uploads/documents/u1/notes.txt'',
    Log Info ''Sending document text to AI service for processing...'',
    AiPost (PostProcess ''Photosynthesis turns light into sugar.'' 15),
    Log Info ''Received response from AI service'',
    DeckSet ''u1_notes_1700000000000''
     \<lparr>deck_title = ''notes.txt'', deck_userId = ''u1'',
        deck_createdAt = ServerTimestamp,
        deck_updatedAt = Some ServerTimestamp, deck_status = ''completed'',
        deck_total_cards = 2, deck_source_type = Some ''documents'',
        deck_model_used = Some (JStr ''gemini-1.5-pro-latest''),
        deck_transcription = None, deck_audio_info = None,
        deck_error_message = None\<rparr>,
    BatchCommit ''u1_notes_1700000000000''
     [(''c1'',
       \<lparr>cd_id = JStr ''c1'', cd_type = JStr ''cloze'',
          cd_question = JStr ''Q'', cd_answer = JStr ''A'',
          cd_source_text = JStr ''Source text not available'',
          cd_difficulty = JStr ''hard'', cd_created_at = ServerTimestamp\<rparr>),
      (''c2'',
       \<lparr>cd_id = JStr ''c2'', cd_type = JStr ''cloze'',
          cd_question = JStr ''Q'', cd_answer = JStr ''A'',
          cd_source_text = JStr ''Source text not available'',
          cd_difficulty = JStr ''hard'', cd_created_at = ServerTimestamp\<rparr>)],
    Log Info ''Successfully processed file and saved 2 flashcards to deck: u1_notes_1700000000000'']"
  by (simp add: run_defs validation_defs string_defs exampleEnv_def exampleBody_def
        fullCard_def exampleObject_def showNat.simps)

lemma run_refused_batch:
  "onFileUpload (refusingBatch (exampleBody [fullCard ''c1''])) exampleObject =
   [Log Info ''Processing documents file for user u1: uploads/documents/u1/notes.txt'',
    Download ''bucket'' ''uploads/documents/u1/notes.txt'',
    Log Info ''Sending document text to AI service for processing...'',
    AiPost (PostProcess ''Photosynthesis turns light into sugar.'' 15),
    Log Info ''Received response from AI service'',
    DeckSet ''u1_notes_1700000000000''
     \<lparr>deck_title = ''notes.txt'', deck_userId = ''u1'',
        deck_createdAt = ServerTimestamp,
        deck_updatedAt = Some ServerTimestamp, deck_status = ''completed'',
        deck_total_cards = 1, deck_source_type = Some ''documents'',
        deck_model_used = Some (JStr ''gemini-1.5-pro-latest''),
        deck_transcription = None, deck_audio_info = None,
        deck_error_message = None\<rparr>,
    Log Error ''Error calling AI service or saving to Firestore:'',
    DeckSet ''u1_notes_1700000000001_failed''
     \<lparr>deck_title = ''notes.txt'', deck_userId = ''u1'',
        deck_createdAt = ServerTimestamp, deck_updatedAt = None,
        deck_status = ''failed'', deck_total_cards = 0,
        deck_source_type = None, deck_model_used = None,
        deck_transcription = None, deck_audio_info = None,
        deck_error_message = Some ''DEADLINE_EXCEEDED''\<rparr>,
    Log Info ''Created failed deck entry: u1_notes_1700000000001_failed'']"
  by (simp add: run_defs validation_defs string_defs refusingBatch_def exampleEnv_def
        exampleBody_def fullCard_def exampleObject_def showNat.simps)

text \<open>
  Claim C1, as the code has it. When the run has sent its request, the AI service has
  answered with a truthy success flag and a list of K well-formed flashcards, K at least 1,
  whose ids name pairwise distinct documents, and the database applies every write, then
  the run makes exactly two writes: first one deck document, with status \<^verbatim>\<open>completed\<close>
  and \<^verbatim>\<open>total_cards = K\<close>, written on its own, then one batch commit of K card writes
  under that deck, made with the ids of the flashcards in order, which leaves exactly K
  card documents. The deck write is not part of the batch.
\<close>

theorem C1_deck_then_batch:
  assumes "aiRequests (onFileUpload env object) = [req]" and "post env req = Inr aiData"
      and "getProp aiData ''success'' = Inr s" and "truthy s"
      and "getProp aiData ''flashcards'' = Inr (JArr cs)" and "cs \<noteq> []"
      and "\<forall>c \<in> set cs. wellFormedCard c"
      and "distinct (map (\<lambda>c. documentPath (idOf c)) cs)"
      and "\<forall>i d. firestoreSet env i d = None" and "\<forall>i ws. batchCommit env i ws = None"
  shows "\<exists>deckId d ws.
           writes (onFileUpload env object) = [DeckSet deckId d, BatchCommit deckId ws]
         \<and> deck_status d = ''completed'' \<and> deck_total_cards d = length cs
         \<and> length ws = length cs \<and> map fst ws = map idOf cs
         \<and> card (cardDocuments (onFileUpload env object)) = length cs"
proof -
  from run_successful_response [OF assms(1-6)] obtain v pre where
    pre: "writes pre = []"
    and tr: "onFileUpload env object =
             pre @ fst (persist env v aiData cs)
               @ (case snd (persist env v aiData cs) of
                    None \<Rightarrow> []
                  | Some (error, clock) \<Rightarrow> catchBlock env v clock error)"
    by blast
  from assms(7) have "\<forall>c \<in> set cs. partialCard c"
    using wellFormed_partial by blast
  from buildBatch_partial [OF this] obtain ws where ws: "buildBatch 0 cs = Inr ws" by blast
  from persist_applied [OF assms(9,10) ws] obtain deckId message where
    p: "persist env v aiData cs =
          ([DeckSet deckId (buildDeckData v aiData (length cs)), BatchCommit deckId ws,
            Log Info message], None)"
    by blast
  have eq: "onFileUpload env object =
              pre @ [DeckSet deckId (buildDeckData v aiData (length cs)), BatchCommit deckId ws,
                     Log Info message]"
    using tr p by simp
  have w: "writes (onFileUpload env object) =
             [DeckSet deckId (buildDeckData v aiData (length cs)), BatchCommit deckId ws]"
    using pre by (simp add: eq writes_def)
  have b: "batches (onFileUpload env object) = [(deckId, ws)]"
    using writes_empty_batches [OF pre] by (simp add: eq batches_append)
  have ids: "map fst ws = map idOf cs"
    using buildBatch_wellFormed_ids [OF ws assms(7)] .
  have "map (\<lambda>w. documentPath (fst w)) ws = map documentPath (map fst ws)"
    by simp
  also have "\<dots> = map (\<lambda>c. documentPath (idOf c)) cs"
    by (simp add: ids)
  finally have "distinct (map (\<lambda>w. documentPath (fst w)) ws)"
    using assms(8) by simp
  then have "distinct (map (\<lambda>w. (deckId, documentPath (fst w))) ws)"
    by (simp add: distinct_map inj_on_def)
  then have "card (set (map (\<lambda>w. (deckId, documentPath (fst w))) ws)) = length ws"
    using distinct_card by fastforce
  then have c: "card (cardDocuments (onFileUpload env object)) = length cs"
    using card_documents_single [OF b] buildBatch_length [OF ws] by simp
  have "deck_status (buildDeckData v aiData (length cs)) = ''completed''"
       "deck_total_cards (buildDeckData v aiData (length cs)) = length cs"
    by (simp_all add: buildDeckData_def Let_def)
  with w c ids buildBatch_length [OF ws] show ?thesis by blast
qed

theorem C1_deck_then_batch_witness:
  "aiRequests (onFileUpload (exampleEnv (exampleBody [fullCard ''c1'', fullCard ''c2'']))
      exampleObject) = [PostProcess ''Photosynthesis turns light into sugar.'' 15]
   \<and> wellFormedCard (fullCard ''c1'') \<and> wellFormedCard (fullCard ''c2'')
   \<and> distinct (map (\<lambda>c. documentPath (idOf c)) [fullCard ''c1'', fullCard ''c2''])
   \<and> (\<exists>deckId d ws.
         writes (onFileUpload (exampleEnv (exampleBody [fullCard ''c1'', fullCard ''c2'']))
           exampleObject) = [DeckSet deckId d, BatchCommit deckId ws]
       \<and> deck_status d = ''completed''
       \<and> deck_total_cards d = length [fullCard ''c1'', fullCard ''c2'']
       \<and> length ws = length [fullCard ''c1'', fullCard ''c2'']
       \<and> map fst ws = map idOf [fullCard ''c1'', fullCard ''c2'']
       \<and> card (cardDocuments
           (onFileUpload (exampleEnv (exampleBody [fullCard ''c1'', fullCard ''c2'']))
             exampleObject)) = length [fullCard ''c1'', fullCard ''c2''])"
proof -
  have a: "aiRequests (onFileUpload (exampleEnv (exampleBody [fullCard ''c1'', fullCard ''c2'']))
      exampleObject) = [PostProcess ''Photosynthesis turns light into sugar.'' 15]"
    by (simp add: run_two_cards)
  have b: "post (exampleEnv (exampleBody [fullCard ''c1'', fullCard ''c2'']))
             (PostProcess ''Photosynthesis turns light into sugar.'' 15)
           = Inr (exampleBody [fullCard ''c1'', fullCard ''c2''])"
    by (simp add: exampleEnv_def)
  have c: "getProp (exampleBody [fullCard ''c1'', fullCard ''c2'']) ''success'' = Inr (JBool True)"
    by (simp add: exampleBody_def)
  have d: "truthy (JBool True)"
    by simp
  have e: "getProp (exampleBody [fullCard ''c1'', fullCard ''c2'']) ''flashcards''
           = Inr (JArr [fullCard ''c1'', fullCard ''c2''])"
    by (simp add: exampleBody_def)
  have f: "[fullCard ''c1'', fullCard ''c2''] \<noteq> []"
    by simp
  have g: "\<forall>c \<in> set [fullCard ''c1'', fullCard ''c2'']. wellFormedCard c"
    by (simp add: fullCard_def namesDocument_def segments_def)
  have h: "distinct (map (\<lambda>c. documentPath (idOf c)) [fullCard ''c1'', fullCard ''c2''])"
    by (simp add: fullCard_def documentPath_def segments_def)
  have i: "\<forall>i d. firestoreSet (exampleEnv (exampleBody [fullCard ''c1'', fullCard ''c2''])) i d
                  = None"
    by (simp add: exampleEnv_def)
  have j: "\<forall>i ws. batchCommit (exampleEnv (exampleBody [fullCard ''c1'', fullCard ''c2''])) i ws
                  = None"
    by (simp add: exampleEnv_def)
  have g2: "wellFormedCard (fullCard ''c1'') \<and> wellFormedCard (fullCard ''c2'')"
    using g by simp
  show ?thesis
    using a g2 h C1_deck_then_batch [OF a b c d e f g h i j] by blast
qed

text \<open>
  Claim C1 as written fails. With one well-formed flashcard in a successful response and a
  database that refuses the batch, two deck documents are written, the first with
  \<^verbatim>\<open>total_cards = 1\<close>, and no card document: the deck write is not under the batch
  commit. When every write is applied, the deck document is a write of its own before
  the batch.
\<close>

theorem C1_not_one_batch_counterexample:
  "wellFormedCard (fullCard ''c1'')
   \<and> map (\<lambda>w. (fst w, deck_status (snd w), deck_total_cards (snd w)))
       (deckWrites (onFileUpload (refusingBatch (exampleBody [fullCard ''c1''])) exampleObject))
     = [(''u1_notes_1700000000000'', ''completed'', 1),
        (''u1_notes_1700000000001_failed'', ''failed'', 0)]
   \<and> cardDocuments (onFileUpload (refusingBatch (exampleBody [fullCard ''c1''])) exampleObject)
     = {}
   \<and> map isWrite (onFileUpload (exampleEnv (exampleBody [fullCard ''c1'', fullCard ''c2'']))
       exampleObject)
     = [False, False, False, False, False, True, True, False]"
proof -
  have "wellFormedCard (fullCard ''c1'')"
    by (simp add: fullCard_def namesDocument_def segments_def)
  then show ?thesis
    by (simp add: run_refused_batch run_two_cards cardDocuments_def)
qed






lemma example_request:
  "aiRequests (onFileUpload (exampleEnv body) exampleObject)
     = [PostProcess ''Photosynthesis turns light into sugar.'' 15]"
proof -
  have v: "validate exampleObject =
             Inr \<lparr> up_bucket = ''bucket'', up_filePath = ''uploads/documents/u1/notes.txt'',
                   up_contentType = ''text/plain'',
                   up_pathParts = [''uploads'', ''documents'', ''u1'', ''notes.txt''],
                   up_userId = ''u1'', up_fileType = ''documents'' \<rparr>"
    by (simp add: validation_defs string_defs exampleObject_def Let_def)
  have s: "sendToAiService (exampleEnv body)
             \<lparr> up_bucket = ''bucket'', up_filePath = ''uploads/documents/u1/notes.txt'',
               up_contentType = ''text/plain'',
               up_pathParts = [''uploads'', ''documents'', ''u1'', ''notes.txt''],
               up_userId = ''u1'', up_fileType = ''documents'' \<rparr>
           = ([Download ''bucket'' ''uploads/documents/u1/notes.txt'',
               Log Info ''Sending document text to AI service for processing...'',
               AiPost (PostProcess ''Photosynthesis turns light into sugar.'' 15)],
              Continue (Some body))"
    by (simp add: sendToAiService_def processDocument_def exampleEnv_def string_defs
          minTextLength_def maxTextLength_def Let_def)
  show ?thesis
    using run_aiRequests [OF v s] by simp
qed


lemma carried_id:
  assumes "getProp c ''id'' = Inr (JStr s)" and "s \<noteq> []" and "buildCardData n c = Inr cd"
  shows "cd_id cd = JStr s"
  using assms by (auto simp: buildCardData_def andThen_def orElse_def split: sum.splits)

lemma repeated_image_card:
  assumes "i < j" and "j < length xs" and "f (xs ! i) = f (xs ! j)"
  shows "card (set (map f xs)) < length xs"
proof -
  have "i < length xs" "i \<noteq> j"
    using assms by simp_all
  then have "\<exists>a < length xs. \<exists>b < length xs. a \<noteq> b \<and> f (xs ! a) = f (xs ! b)"
    using assms by blast
  then have "\<not> distinct (map f xs)"
    by (simp add: distinct_conv_nth)
  then have "card (set (map f xs)) \<noteq> length (map f xs)"
    using card_distinct by blast
  moreover have "card (set (map f xs)) \<le> length (map f xs)"
    by (rule card_length)
  ultimately show ?thesis by simp
qed

lemma failedDeckData_status: "deck_status (failedDeckData v e) \<noteq> ''completed''"
  by (simp add: failedDeckData_def)

text \<open>
  Claim C9. When the run has sent its request and the AI service has answered with a
  truthy success flag and a list in which the flashcards at two positions carry the same
  id, a non-empty string, then every committed batch writes these two cards to the same
  document id under the deck, every deck document written with status \<^verbatim>\<open>completed\<close>
  records the length of the list as \<^verbatim>\<open>total_cards\<close>, and the number of card documents
  left by the run is strictly less than that length.
\<close>

theorem C9_duplicate_ids_collide:
  assumes "aiRequests (onFileUpload env object) = [req]" and "post env req = Inr aiData"
      and "getProp aiData ''success'' = Inr s" and "truthy s"
      and "getProp aiData ''flashcards'' = Inr (JArr cs)"
      and "i < j" and "j < length cs"
      and "getProp (cs ! i) ''id'' = Inr (JStr sid)" and "getProp (cs ! j) ''id'' = Inr (JStr sid)"
      and "sid \<noteq> []"
  shows "(\<forall>b \<in> set (batches (onFileUpload env object)).
            length (snd b) = length cs \<and> fst (snd b ! i) = sid \<and> fst (snd b ! j) = sid)
       \<and> (\<forall>w \<in> set (deckWrites (onFileUpload env object)).
            deck_status (snd w) = ''completed'' \<longrightarrow> deck_total_cards (snd w) = length cs)
       \<and> card (cardDocuments (onFileUpload env object)) < length cs"
proof -
  from assms(7) have ne: "cs \<noteq> []" by auto
  from run_successful_response [OF assms(1-5) ne] obtain v pre where
    pre: "writes pre = []"
    and tr: "onFileUpload env object =
             pre @ fst (persist env v aiData cs)
               @ (case snd (persist env v aiData cs) of
                    None \<Rightarrow> []
                  | Some (error, clock) \<Rightarrow> catchBlock env v clock error)"
    by blast
  obtain events thrown where p: "persist env v aiData cs = (events, thrown)"
    by (cases "persist env v aiData cs")
  note shape = persist_shape [OF p]
  have bt: "batches (onFileUpload env object) = batches events"
    using writes_empty_batches [OF pre] tr p
    by (simp add: batches_append catchBlock_batches split: option.splits prod.splits)
  have dw: "set (deckWrites (onFileUpload env object))
              \<subseteq> set (deckWrites events) \<union> {w. \<exists>e clock. w \<in> set (deckWrites (catchBlock env v clock e))}"
    using writes_empty_deckWrites [OF pre] tr p
    by (auto simp: deckWrites_append split: option.splits prod.splits)
  have ij: "i < length cs" using assms(6,7) by simp
  have same: "length ws = length cs \<and> fst (ws ! i) = sid \<and> fst (ws ! j) = sid"
    if ws: "buildBatch 0 cs = Inr ws" for ws
  proof -
    from buildBatch_nth [OF ws ij] carried_id [OF assms(8,10)]
    have "cardRef (JStr sid) = Inr (fst (ws ! i))" by auto
    moreover from buildBatch_nth [OF ws assms(7)] carried_id [OF assms(9,10)]
    have "cardRef (JStr sid) = Inr (fst (ws ! j))" by auto
    ultimately show ?thesis
      using buildBatch_length [OF ws] cardRef_Inr [of "JStr sid"] by auto
  qed
  have first: "\<forall>b \<in> set (batches (onFileUpload env object)).
            length (snd b) = length cs \<and> fst (snd b ! i) = sid \<and> fst (snd b ! j) = sid"
    using shape same bt by auto
  have second: "\<forall>w \<in> set (deckWrites (onFileUpload env object)).
            deck_status (snd w) = ''completed'' \<longrightarrow> deck_total_cards (snd w) = length cs"
  proof
    fix w assume "w \<in> set (deckWrites (onFileUpload env object))"
    with dw consider "w \<in> set (deckWrites events)"
      | e clock where "w \<in> set (deckWrites (catchBlock env v clock e))"
      by blast
    then show "deck_status (snd w) = ''completed'' \<longrightarrow> deck_total_cards (snd w) = length cs"
    proof cases
      case 1
      with shape have "snd w = buildDeckData v aiData (length cs)" by blast
      then show ?thesis by (simp add: buildDeckData_def Let_def)
    next
      case 2
      with catchBlock_deckWrites have "snd w = failedDeckData v e" by blast
      then show ?thesis using failedDeckData_status by simp
    qed
  qed
  have third: "card (cardDocuments (onFileUpload env object)) < length cs"
  proof (cases "batches events = []")
    case True
    with bt ne show ?thesis by (simp add: cardDocuments_def)
  next
    case False
    with shape obtain deckId ws where
      b: "batches events = [(deckId, ws)]" and ws: "buildBatch 0 cs = Inr ws"
      by blast
    from same [OF ws]
    have "(\<lambda>w. (deckId, documentPath (fst w))) (ws ! i)
            = (\<lambda>w. (deckId, documentPath (fst w))) (ws ! j)"
      by simp
    from repeated_image_card [OF assms(6) _ this] same [OF ws] assms(7)
    have "card (set (map (\<lambda>w. (deckId, documentPath (fst w))) ws)) < length ws" by simp
    then show ?thesis
      using card_documents_single [of "onFileUpload env object" deckId ws] bt b same [OF ws]
      by simp
  qed
  from first second third show ?thesis by blast
qed

lemma run_same_id_batches:
  "map (\<lambda>b. (fst b, map fst (snd b)))
     (batches (onFileUpload (exampleEnv (exampleBody [fullCard ''c1'', fullCard ''c1'']))
        exampleObject))
   = [(''u1_notes_1700000000000'', [''c1'', ''c1''])]"
  by (simp add: run_defs validation_defs string_defs exampleEnv_def exampleBody_def
        fullCard_def exampleObject_def showNat.simps)

lemma run_same_id_decks:
  "map (\<lambda>w. (deck_status (snd w), deck_total_cards (snd w)))
     (deckWrites (onFileUpload (exampleEnv (exampleBody [fullCard ''c1'', fullCard ''c1'']))
        exampleObject))
   = [(''completed'', 2)]"
  by (simp add: run_defs validation_defs string_defs exampleEnv_def exampleBody_def
        fullCard_def exampleObject_def showNat.simps)

theorem C9_duplicate_ids_witness:
  "aiRequests (onFileUpload (exampleEnv (exampleBody [fullCard ''c1'', fullCard ''c1'']))
      exampleObject) = [PostProcess ''Photosynthesis turns light into sugar.'' 15]
   \<and> getProp ([fullCard ''c1'', fullCard ''c1''] ! 0) ''id'' = Inr (JStr ''c1'')
   \<and> getProp ([fullCard ''c1'', fullCard ''c1''] ! 1) ''id'' = Inr (JStr ''c1'')
   \<and> map (\<lambda>b. (fst b, map fst (snd b)))
       (batches (onFileUpload (exampleEnv (exampleBody [fullCard ''c1'', fullCard ''c1'']))
          exampleObject))
     = [(''u1_notes_1700000000000'', [''c1'', ''c1''])]
   \<and> map (\<lambda>w. (deck_status (snd w), deck_total_cards (snd w)))
       (deckWrites (onFileUpload (exampleEnv (exampleBody [fullCard ''c1'', fullCard ''c1'']))
          exampleObject))
     = [(''completed'', 2)]
   \<and> card (cardDocuments
        (onFileUpload (exampleEnv (exampleBody [fullCard ''c1'', fullCard ''c1''])) exampleObject))
      < 2"
proof -
  have a: "aiRequests (onFileUpload (exampleEnv (exampleBody [fullCard ''c1'', fullCard ''c1'']))
      exampleObject) = [PostProcess ''Photosynthesis turns light into sugar.'' 15]"
    by (rule example_request)
  have b: "post (exampleEnv (exampleBody [fullCard ''c1'', fullCard ''c1'']))
             (PostProcess ''Photosynthesis turns light into sugar.'' 15)
           = Inr (exampleBody [fullCard ''c1'', fullCard ''c1''])"
    by (simp add: exampleEnv_def)
  have c: "getProp (exampleBody [fullCard ''c1'', fullCard ''c1'']) ''success'' = Inr (JBool True)"
    by (simp add: exampleBody_def)
  have d: "truthy (JBool True)"
    by simp
  have e: "getProp (exampleBody [fullCard ''c1'', fullCard ''c1'']) ''flashcards''
           = Inr (JArr [fullCard ''c1'', fullCard ''c1''])"
    by (simp add: exampleBody_def)
  have f: "(0::nat) < 1"
    by simp
  have g: "1 < length [fullCard ''c1'', fullCard ''c1'']"
    by simp
  have h0: "getProp ([fullCard ''c1'', fullCard ''c1''] ! 0) ''id'' = Inr (JStr ''c1'')"
    by (simp add: fullCard_def)
  have h1: "getProp ([fullCard ''c1'', fullCard ''c1''] ! 1) ''id'' = Inr (JStr ''c1'')"
    by (simp add: fullCard_def)
  have n: "''c1'' \<noteq> []"
    by simp
  note th = C9_duplicate_ids_collide [OF a b c d e f g h0 h1 n]
  have dw: "map (\<lambda>w. (deck_status (snd w), deck_total_cards (snd w)))
       (deckWrites (onFileUpload (exampleEnv (exampleBody [fullCard ''c1'', fullCard ''c1'']))
          exampleObject))
     = [(''completed'', 2)]"
    by (rule run_same_id_decks)
  from th have cd: "card (cardDocuments
        (onFileUpload (exampleEnv (exampleBody [fullCard ''c1'', fullCard ''c1''])) exampleObject))
      < 2"
    by simp
  from a h0 h1 run_same_id_batches dw cd show ?thesis by blast
qed

section \<open>Properties of the failure paths\<close>

lemma returned_run:
  assumes "validate object = Inr v" and "sendToAiService env v = (events, Return)"
  shows "onFileUpload env object = Log Info (processingMessage object) # events"
    and "writes (onFileUpload env object) = []"
  using assms sendToAiService_cases [OF assms(2)]
  by (simp_all add: accepted_run tryBlock_eq writes_def)

lemma empty_download_returns:
  assumes "download env (up_bucket v) (up_filePath v) = Inr []"
  shows "\<exists>events message. processDocument env v = (events @ [Log Error message], Return)"
proof -
  have "processDocument env v =
          ([Download (up_bucket v) (up_filePath v)] @ [Log Error ''Document is empty or corrupted.''],
           Return)"
    using assms by (simp add: processDocument_def Let_def)
  then show ?thesis by blast
qed

lemma failed_extraction_returns:
  assumes "download env (up_bucket v) (up_filePath v) = Inr buffer" and "buffer \<noteq> []"
      and "(if startsWith (up_contentType v) ''application/pdf''
            then pdfParse env buffer else Inr (toStringUtf8 env buffer)) = Inl e"
  shows "\<exists>events message. processDocument env v = (events @ [Log Error message], Return)"
proof -
  have "processDocument env v =
          ([Download (up_bucket v) (up_filePath v)]
             @ [Log Error ''Failed to extract text from document:''], Return)"
    using assms by (simp add: processDocument_def Let_def)
  then show ?thesis by blast
qed

lemma short_text_returns:
  assumes "download env (up_bucket v) (up_filePath v) = Inr buffer" and "buffer \<noteq> []"
      and "(if startsWith (up_contentType v) ''application/pdf''
            then pdfParse env buffer else Inr (toStringUtf8 env buffer)) = Inr extracted"
      and "length extracted < 10"
  shows "\<exists>events message. processDocument env v = (events @ [Log Error message], Return)"
proof (cases "trim extracted = []")
  case True
  have "processDocument env v =
          ([Download (up_bucket v) (up_filePath v)]
             @ [Log Error ''Extracted text content is empty.''], Return)"
    using assms True by (simp add: processDocument_def Let_def)
  then show ?thesis by blast
next
  case False
  have "processDocument env v =
          ([Download (up_bucket v) (up_filePath v)]
             @ [Log Error (''Text content too short: '' @ showNat (length extracted)
                  @ '' characters. Minimum required: '' @ showNat minTextLength)], Return)"
    using assms False by (simp add: processDocument_def minTextLength_def Let_def)
  then show ?thesis by blast
qed

lemma document_return_logged:
  assumes "validate object = Inr v" and "up_fileType v = ''documents''"
      and "\<exists>events message. processDocument env v = (events @ [Log Error message], Return)"
  shows "writes (onFileUpload env object) = []
         \<and> (\<exists>message. last (onFileUpload env object) = Log Error message)"
proof -
  from assms(3) obtain events message where
    p: "processDocument env v = (events @ [Log Error message], Return)"
    by blast
  then have s: "sendToAiService env v = (events @ [Log Error message], Return)"
    using assms(2) by (simp add: sendToAiService_def)
  from returned_run [OF assms(1) s] show ?thesis by simp
qed

lemma malformed_response:
  assumes "malformedBody aiData" and "aiData \<noteq> JNull" and "aiData \<noteq> JUndefined"
  shows "afterResponse env v (Some aiData) = ([Log Error ''Invalid response from AI service:''], None)"
proof (cases aiData)
  case (JObj kvs)
  with assms(1)
  have "\<not> truthy (case map_of kvs ''success'' of Some x \<Rightarrow> x | None \<Rightarrow> JUndefined)
      \<or> \<not> truthy (case map_of kvs ''flashcards'' of Some x \<Rightarrow> x | None \<Rightarrow> JUndefined)
      \<or> \<not> isArray (case map_of kvs ''flashcards'' of Some x \<Rightarrow> x | None \<Rightarrow> JUndefined)"
    by (auto split: option.splits)
  then show ?thesis
    using JObj by (auto simp: afterResponse_def readProp_def)
qed (use assms in \<open>simp_all add: afterResponse_def readProp_def\<close>)

lemma null_response:
  assumes "aiData = JNull \<or> aiData = JUndefined"
  shows "\<exists>e. afterResponse env v (Some aiData) = ([], Some (e, 0))"
  using assms by (auto simp: afterResponse_def)

lemma run_with_post_failure:
  assumes "aiRequests (onFileUpload env object) = [req]" and "post env req = Inl e"
  shows "\<exists>v pre. validate object = Inr v \<and> writes pre = [] \<and>
           onFileUpload env object = pre @ catchBlock env v 0 e"
proof (cases "validate object")
  case (Inl r)
  then show ?thesis using assms(1) by (simp add: rejected_run split: if_splits)
next
  case (Inr v)
  obtain events st where s: "sendToAiService env v = (events, st)"
    by (cases "sendToAiService env v")
  have req: "aiRequests events = [req]"
    using run_aiRequests [OF Inr s] assms(1) by simp
  note c = sendToAiService_cases [OF s]
  have "st = Throw e"
  proof (cases st)
    case (Continue r)
    with c req assms(2) show ?thesis by auto
  next
    case Return
    with c req show ?thesis by simp
  next
    case (Throw e')
    with c req assms(2) show ?thesis by auto
  qed
  then have "onFileUpload env object =
      ([Log Info (processingMessage object)] @ events) @ catchBlock env v 0 e"
    by (simp add: accepted_run [OF Inr] tryBlock_eq [OF s])
  moreover have "writes ([Log Info (processingMessage object)] @ events) = []"
    using c by (simp add: writes_def)
  ultimately show ?thesis using Inr by blast
qed

lemma catchBlock_recorded:
  assumes "\<forall>i d. firestoreSet env i d = None"
  shows "\<exists>stem. writes (catchBlock env v clock e) = [DeckSet (stem @ ''_failed'') (failedDeckData v e)]"
proof -
  obtain filename k where f: "deckFilename env clock (up_filePath v) = (filename, k)"
    by (cases "deckFilename env clock (up_filePath v)")
  have "writes (catchBlock env v clock e) =
          [DeckSet ((up_userId v @ ''_'' @ filename @ ''_'' @ showNat (now env k)) @ ''_failed'')
             (failedDeckData v e)]"
    using assms f by (simp add: catchBlock_def writes_def Let_def)
  then show ?thesis by blast
qed

text \<open>
  Claim C2, as the code has it. For an upload that passed validation: when the document
  download is empty, or the text extraction fails, or the extracted text is shorter than
  10 characters, the run ends with an error log line and writes nothing to the database;
  when the AI service has answered with a malformed body other than \<^verbatim>\<open>null\<close> (any shape
  other than an object with a success flag and a list of flashcards), the run ends with
  the error log line \<^verbatim>\<open>Invalid response from AI service:\<close> and writes nothing either.
  When the request to the AI service itself throws and the database applies the write,
  the run writes exactly one deck document: its id ends with \<^verbatim>\<open>_failed\<close>, its status is
  \<^verbatim>\<open>failed\<close>, its \<^verbatim>\<open>total_cards\<close> is 0 and its error message is the message of the
  thrown error, or \<^verbatim>\<open>Unknown error occurred\<close> when the thrown value is not an error. The
  same failed deck is written, with an error message, when the body is \<^verbatim>\<open>null\<close>: reading
  its success flag throws.
\<close>

theorem C2_failure_paths:
  assumes "validate object = Inr v"
  shows "(up_fileType v = ''documents'' \<and> download env (up_bucket v) (up_filePath v) = Inr []
            \<longrightarrow> writes (onFileUpload env object) = []
                \<and> (\<exists>message. last (onFileUpload env object) = Log Error message))
       \<and> (\<forall>buffer e.
             up_fileType v = ''documents'' \<and> download env (up_bucket v) (up_filePath v) = Inr buffer
             \<and> buffer \<noteq> []
             \<and> (if startsWith (up_contentType v) ''application/pdf''
                 then pdfParse env buffer else Inr (toStringUtf8 env buffer)) = Inl e
             \<longrightarrow> writes (onFileUpload env object) = []
                 \<and> (\<exists>message. last (onFileUpload env object) = Log Error message))
       \<and> (\<forall>buffer extracted.
             up_fileType v = ''documents'' \<and> download env (up_bucket v) (up_filePath v) = Inr buffer
             \<and> buffer \<noteq> []
             \<and> (if startsWith (up_contentType v) ''application/pdf''
                 then pdfParse env buffer else Inr (toStringUtf8 env buffer)) = Inr extracted
             \<and> length extracted < 10
             \<longrightarrow> writes (onFileUpload env object) = []
                 \<and> (\<exists>message. last (onFileUpload env object) = Log Error message))
       \<and> (\<forall>req aiData.
             aiRequests (onFileUpload env object) = [req] \<and> post env req = Inr aiData
             \<and> malformedBody aiData \<and> aiData \<noteq> JNull \<and> aiData \<noteq> JUndefined
             \<longrightarrow> writes (onFileUpload env object) = []
                 \<and> last (onFileUpload env object) = Log Error ''Invalid response from AI service:'')
       \<and> (\<forall>req e.
             aiRequests (onFileUpload env object) = [req] \<and> post env req = Inl e
             \<and> (\<forall>i d. firestoreSet env i d = None)
             \<longrightarrow> (\<exists>stem d.
                    writes (onFileUpload env object) = [DeckSet (stem @ ''_failed'') d]
                  \<and> deck_status d = ''failed'' \<and> deck_total_cards d = 0
                  \<and> deck_error_message d =
                      Some (case e of ErrorInstance message \<Rightarrow> message
                            | OtherValue \<Rightarrow> ''Unknown error occurred'')))
       \<and> (\<forall>req aiData.
             aiRequests (onFileUpload env object) = [req] \<and> post env req = Inr aiData
             \<and> (aiData = JNull \<or> aiData = JUndefined)
             \<and> (\<forall>i d. firestoreSet env i d = None)
             \<longrightarrow> (\<exists>stem d message.
                    writes (onFileUpload env object) = [DeckSet (stem @ ''_failed'') d]
                  \<and> deck_status d = ''failed'' \<and> deck_total_cards d = 0
                  \<and> deck_error_message d = Some message))"
proof (intro conjI allI impI)
  assume "up_fileType v = ''documents'' \<and> download env (up_bucket v) (up_filePath v) = Inr []"
  then have "writes (onFileUpload env object) = []
             \<and> (\<exists>message. last (onFileUpload env object) = Log Error message)"
    using document_return_logged [OF assms] empty_download_returns by blast
  then show "writes (onFileUpload env object) = []"
    and "\<exists>message. last (onFileUpload env object) = Log Error message"
    by blast+
next
  fix buffer e
  assume "up_fileType v = ''documents'' \<and> download env (up_bucket v) (up_filePath v) = Inr buffer
             \<and> buffer \<noteq> []
             \<and> (if startsWith (up_contentType v) ''application/pdf''
                 then pdfParse env buffer else Inr (toStringUtf8 env buffer)) = Inl e"
  then have "writes (onFileUpload env object) = []
             \<and> (\<exists>message. last (onFileUpload env object) = Log Error message)"
    using document_return_logged [OF assms] failed_extraction_returns by blast
  then show "writes (onFileUpload env object) = []"
    and "\<exists>message. last (onFileUpload env object) = Log Error message"
    by blast+
next
  fix buffer extracted
  assume "up_fileType v = ''documents'' \<and> download env (up_bucket v) (up_filePath v) = Inr buffer
             \<and> buffer \<noteq> []
             \<and> (if startsWith (up_contentType v) ''application/pdf''
                 then pdfParse env buffer else Inr (toStringUtf8 env buffer)) = Inr extracted
             \<and> length extracted < 10"
  then have "writes (onFileUpload env object) = []
             \<and> (\<exists>message. last (onFileUpload env object) = Log Error message)"
    using document_return_logged [OF assms] short_text_returns by blast
  then show "writes (onFileUpload env object) = []"
    and "\<exists>message. last (onFileUpload env object) = Log Error message"
    by blast+
next
  fix req aiData
  assume h: "aiRequests (onFileUpload env object) = [req] \<and> post env req = Inr aiData
             \<and> malformedBody aiData \<and> aiData \<noteq> JNull \<and> aiData \<noteq> JUndefined"
  then have a: "aiRequests (onFileUpload env object) = [req]" and b: "post env req = Inr aiData"
    and m: "malformedBody aiData" "aiData \<noteq> JNull" "aiData \<noteq> JUndefined"
    by simp_all
  from run_with_response [OF a b] obtain v' pre where
    pre: "writes pre = []"
    and tr: "onFileUpload env object =
             pre @ fst (afterResponse env v' (Some aiData))
               @ (case snd (afterResponse env v' (Some aiData)) of
                    None \<Rightarrow> []
                  | Some (error, clock) \<Rightarrow> catchBlock env v' clock error)"
    by blast
  have eq: "onFileUpload env object = pre @ [Log Error ''Invalid response from AI service:'']"
    using tr by (simp add: malformed_response [OF m])
  show "writes (onFileUpload env object) = []"
    using pre by (simp add: eq writes_def)
  show "last (onFileUpload env object) = Log Error ''Invalid response from AI service:''"
    by (simp add: eq)
next
  fix req e
  assume h: "aiRequests (onFileUpload env object) = [req] \<and> post env req = Inl e
             \<and> (\<forall>i d. firestoreSet env i d = None)"
  then have a: "aiRequests (onFileUpload env object) = [req]" and b: "post env req = Inl e"
    and f: "\<forall>i d. firestoreSet env i d = None"
    by simp_all
  from run_with_post_failure [OF a b] assms obtain pre where
    pre: "writes pre = []"
    and tr: "onFileUpload env object = pre @ catchBlock env v 0 e"
    by auto
  from catchBlock_recorded [OF f, of v 0 e] obtain stem where
    c: "writes (catchBlock env v 0 e) = [DeckSet (stem @ ''_failed'') (failedDeckData v e)]"
    by blast
  have w: "writes (onFileUpload env object) = [DeckSet (stem @ ''_failed'') (failedDeckData v e)]"
    using pre c by (simp add: tr writes_append)
  have "deck_status (failedDeckData v e) = ''failed''"
       "deck_total_cards (failedDeckData v e) = 0"
       "deck_error_message (failedDeckData v e) =
          Some (case e of ErrorInstance message \<Rightarrow> message | OtherValue \<Rightarrow> ''Unknown error occurred'')"
    by (simp_all add: failedDeckData_def errorMessage_def)
  with w show "\<exists>stem d.
                    writes (onFileUpload env object) = [DeckSet (stem @ ''_failed'') d]
                  \<and> deck_status d = ''failed'' \<and> deck_total_cards d = 0
                  \<and> deck_error_message d =
                      Some (case e of ErrorInstance message \<Rightarrow> message
                            | OtherValue \<Rightarrow> ''Unknown error occurred'')"
    by blast
next
  fix req aiData
  assume h: "aiRequests (onFileUpload env object) = [req] \<and> post env req = Inr aiData
             \<and> (aiData = JNull \<or> aiData = JUndefined)
             \<and> (\<forall>i d. firestoreSet env i d = None)"
  then have a: "aiRequests (onFileUpload env object) = [req]" and b: "post env req = Inr aiData"
    and n: "aiData = JNull \<or> aiData = JUndefined"
    and f: "\<forall>i d. firestoreSet env i d = None"
    by simp_all
  from run_with_response [OF a b] assms obtain pre where
    pre: "writes pre = []"
    and tr: "onFileUpload env object =
             pre @ fst (afterResponse env v (Some aiData))
               @ (case snd (afterResponse env v (Some aiData)) of
                    None \<Rightarrow> []
                  | Some (error, clock) \<Rightarrow> catchBlock env v clock error)"
    by auto
  from null_response [OF n, of env v] obtain e where
    r: "afterResponse env v (Some aiData) = ([], Some (e, 0))"
    by blast
  from catchBlock_recorded [OF f, of v 0 e] obtain stem where
    c: "writes (catchBlock env v 0 e) = [DeckSet (stem @ ''_failed'') (failedDeckData v e)]"
    by blast
  have w: "writes (onFileUpload env object) = [DeckSet (stem @ ''_failed'') (failedDeckData v e)]"
    using pre c by (simp add: tr r writes_append)
  have "deck_status (failedDeckData v e) = ''failed''"
       "deck_total_cards (failedDeckData v e) = 0"
       "deck_error_message (failedDeckData v e) = Some (errorMessage e)"
    by (simp_all add: failedDeckData_def)
  with w show "\<exists>stem d message.
                    writes (onFileUpload env object) = [DeckSet (stem @ ''_failed'') d]
                  \<and> deck_status d = ''failed'' \<and> deck_total_cards d = 0
                  \<and> deck_error_message d = Some message"
    by blast
qed

lemma example_validated: "validate exampleObject = Inr exampleUpload"
  by (simp add: validation_defs string_defs exampleObject_def exampleUpload_def Let_def)

lemma examplePdf_validated: "validate examplePdf = Inr examplePdfUpload"
  by (simp add: validation_defs string_defs examplePdf_def examplePdfUpload_def Let_def)

lemma run_empty_download:
  "onFileUpload emptyDownload exampleObject =
   [Log Info ''Processing documents file for user u1: uploads/documents/u1/notes.txt'',
    Download ''bucket'' ''uploads/documents/u1/notes.txt'',
    Log Error ''Document is empty or corrupted.'']"
  by (simp add: run_defs validation_defs string_defs emptyDownload_def exampleEnv_def
        exampleObject_def)

lemma run_body_without_flag:
  "onFileUpload (exampleEnv bodyWithoutFlag) exampleObject =
   [Log Info ''Processing documents file for user u1: uploads/documents/u1/notes.txt'',
    Download ''bucket'' ''uploads/documents/u1/notes.txt'',
    Log Info ''Sending document text to AI service for processing...'',
    AiPost (PostProcess ''Photosynthesis turns light into sugar.'' 15),
    Log Info ''Received response from AI service'',
    Log Error ''Invalid response from AI service:'']"
  by (simp add: run_defs validation_defs string_defs bodyWithoutFlag_def exampleEnv_def
        exampleCard_def exampleObject_def)

lemma run_service_down:
  "onFileUpload serviceDown exampleObject =
   [Log Info ''Processing documents file for user u1: uploads/documents/u1/notes.txt'',
    Download ''bucket'' ''uploads/documents/u1/notes.txt'',
    Log Info ''Sending document text to AI service for processing...'',
    AiPost (PostProcess ''Photosynthesis turns light into sugar.'' 15),
    Log Error ''Error calling AI service or saving to Firestore:'',
    DeckSet ''u1_notes_1700000000000_failed''
     \<lparr>deck_title = ''notes.txt'', deck_userId = ''u1'',
        deck_createdAt = ServerTimestamp, deck_updatedAt = None,
        deck_status = ''failed'', deck_total_cards = 0,
        deck_source_type = None, deck_model_used = None,
        deck_transcription = None, deck_audio_info = None,
        deck_error_message = Some ''Request failed with status code 500''\<rparr>,
    Log Info ''Created failed deck entry: u1_notes_1700000000000_failed'']"
  by (simp add: run_defs validation_defs string_defs serviceDown_def exampleEnv_def
        exampleObject_def showNat.simps)

text \<open>
  Claim C2 as written fails. A text document whose download is empty passes validation and
  the run writes no deck at all, failed or not; the same holds when the AI service answers
  with a body that has no success flag.
\<close>

theorem C2_no_failed_deck_counterexample:
  "validate exampleObject = Inr exampleUpload
   \<and> download emptyDownload ''bucket'' ''uploads/documents/u1/notes.txt'' = Inr []
   \<and> deckWrites (onFileUpload emptyDownload exampleObject) = []
   \<and> malformedBody bodyWithoutFlag
   \<and> aiRequests (onFileUpload (exampleEnv bodyWithoutFlag) exampleObject)
       = [PostProcess ''Photosynthesis turns light into sugar.'' 15]
   \<and> post (exampleEnv bodyWithoutFlag) (PostProcess ''Photosynthesis turns light into sugar.'' 15)
       = Inr bodyWithoutFlag
   \<and> deckWrites (onFileUpload (exampleEnv bodyWithoutFlag) exampleObject) = []"
proof -
  have "download emptyDownload ''bucket'' ''uploads/documents/u1/notes.txt'' = Inr []"
    by (simp add: emptyDownload_def exampleEnv_def)
  moreover have "malformedBody bodyWithoutFlag"
    by (simp add: bodyWithoutFlag_def)
  moreover have "post (exampleEnv bodyWithoutFlag)
                   (PostProcess ''Photosynthesis turns light into sugar.'' 15) = Inr bodyWithoutFlag"
    by (simp add: exampleEnv_def)
  ultimately show ?thesis
    by (simp add: example_validated run_empty_download run_body_without_flag)
qed

theorem C2_failure_paths_witness:
  "validate exampleObject = Inr exampleUpload
   \<and> writes (onFileUpload emptyDownload exampleObject) = []
   \<and> (\<exists>message. last (onFileUpload emptyDownload exampleObject) = Log Error message)
   \<and> validate examplePdf = Inr examplePdfUpload
   \<and> writes (onFileUpload unreadablePdf examplePdf) = []
   \<and> (\<exists>message. last (onFileUpload unreadablePdf examplePdf) = Log Error message)
   \<and> writes (onFileUpload shortText exampleObject) = []
   \<and> (\<exists>message. last (onFileUpload shortText exampleObject) = Log Error message)
   \<and> malformedBody bodyWithoutFlag
   \<and> writes (onFileUpload (exampleEnv bodyWithoutFlag) exampleObject) = []
   \<and> last (onFileUpload (exampleEnv bodyWithoutFlag) exampleObject)
       = Log Error ''Invalid response from AI service:''
   \<and> (\<exists>stem d.
         writes (onFileUpload serviceDown exampleObject) = [DeckSet (stem @ ''_failed'') d]
       \<and> deck_status d = ''failed'' \<and> deck_total_cards d = 0
       \<and> deck_error_message d = Some ''Request failed with status code 500'')
   \<and> malformedBody JNull
   \<and> (\<exists>stem d message.
         writes (onFileUpload (exampleEnv JNull) exampleObject) = [DeckSet (stem @ ''_failed'') d]
       \<and> deck_status d = ''failed'' \<and> deck_total_cards d = 0
       \<and> deck_error_message d = Some message)"
proof -
  note v = example_validated
  note pv = examplePdf_validated
  have k: "up_fileType exampleUpload = ''documents''" "up_fileType examplePdfUpload = ''documents''"
    by (simp_all add: exampleUpload_def examplePdfUpload_def)
  have one: "writes (onFileUpload emptyDownload exampleObject) = []
      \<and> (\<exists>message. last (onFileUpload emptyDownload exampleObject) = Log Error message)"
  proof -
    have "download emptyDownload (up_bucket exampleUpload) (up_filePath exampleUpload) = Inr []"
      by (simp add: emptyDownload_def exampleEnv_def)
    with k C2_failure_paths [OF v, of emptyDownload] show ?thesis by blast
  qed
  have two: "writes (onFileUpload unreadablePdf examplePdf) = []
      \<and> (\<exists>message. last (onFileUpload unreadablePdf examplePdf) = Log Error message)"
  proof -
    have d: "download unreadablePdf (up_bucket examplePdfUpload) (up_filePath examplePdfUpload)
               = Inr ''Photosynthesis turns light into sugar.''"
      by (simp add: unreadablePdf_def exampleEnv_def)
    have n: "''Photosynthesis turns light into sugar.'' \<noteq> []"
      by simp
    have x: "(if startsWith (up_contentType examplePdfUpload) ''application/pdf''
              then pdfParse unreadablePdf ''Photosynthesis turns light into sugar.''
              else Inr (toStringUtf8 unreadablePdf ''Photosynthesis turns light into sugar.''))
             = Inl (ErrorInstance ''Invalid PDF structure'')"
      by (simp add: unreadablePdf_def exampleEnv_def examplePdfUpload_def startsWith_def)
    from k d n x C2_failure_paths [OF pv, of unreadablePdf] show ?thesis by blast
  qed
  have three: "writes (onFileUpload shortText exampleObject) = []
      \<and> (\<exists>message. last (onFileUpload shortText exampleObject) = Log Error message)"
  proof -
    have d: "download shortText (up_bucket exampleUpload) (up_filePath exampleUpload) = Inr ''short''"
      by (simp add: shortText_def exampleEnv_def)
    have n: "''short'' \<noteq> []"
      by simp
    have x: "(if startsWith (up_contentType exampleUpload) ''application/pdf''
              then pdfParse shortText ''short'' else Inr (toStringUtf8 shortText ''short''))
             = Inr ''short''"
      by (simp add: shortText_def exampleEnv_def exampleUpload_def startsWith_def)
    have l: "length ''short'' < 10"
      by simp
    from k d n x l C2_failure_paths [OF v, of shortText] show ?thesis by blast
  qed
  have m: "malformedBody bodyWithoutFlag"
    by (simp add: bodyWithoutFlag_def)
  have four: "writes (onFileUpload (exampleEnv bodyWithoutFlag) exampleObject) = []
      \<and> last (onFileUpload (exampleEnv bodyWithoutFlag) exampleObject)
          = Log Error ''Invalid response from AI service:''"
  proof -
    have a: "aiRequests (onFileUpload (exampleEnv bodyWithoutFlag) exampleObject)
               = [PostProcess ''Photosynthesis turns light into sugar.'' 15]"
      by (rule example_request)
    have b: "post (exampleEnv bodyWithoutFlag)
               (PostProcess ''Photosynthesis turns light into sugar.'' 15) = Inr bodyWithoutFlag"
      by (simp add: exampleEnv_def)
    have n: "bodyWithoutFlag \<noteq> JNull" "bodyWithoutFlag \<noteq> JUndefined"
      by (simp_all add: bodyWithoutFlag_def)
    from a b m n C2_failure_paths [OF v, of "exampleEnv bodyWithoutFlag"] show ?thesis by blast
  qed
  have five: "\<exists>stem d.
         writes (onFileUpload serviceDown exampleObject) = [DeckSet (stem @ ''_failed'') d]
       \<and> deck_status d = ''failed'' \<and> deck_total_cards d = 0
       \<and> deck_error_message d = Some ''Request failed with status code 500''"
  proof -
    have a: "aiRequests (onFileUpload serviceDown exampleObject)
               = [PostProcess ''Photosynthesis turns light into sugar.'' 15]"
      by (simp add: run_service_down)
    have b: "post serviceDown (PostProcess ''Photosynthesis turns light into sugar.'' 15)
               = Inl (ErrorInstance ''Request failed with status code 500'')"
      by (simp add: serviceDown_def exampleEnv_def)
    have f: "\<forall>i d. firestoreSet serviceDown i d = None"
      by (simp add: serviceDown_def exampleEnv_def)
    from C2_failure_paths [OF v, of serviceDown] a b f
    have "\<exists>stem d.
            writes (onFileUpload serviceDown exampleObject) = [DeckSet (stem @ ''_failed'') d]
          \<and> deck_status d = ''failed'' \<and> deck_total_cards d = 0
          \<and> deck_error_message d =
              Some (case ErrorInstance ''Request failed with status code 500'' of
                      ErrorInstance message \<Rightarrow> message
                    | OtherValue \<Rightarrow> ''Unknown error occurred'')"
      by blast
    then show ?thesis by simp
  qed
  have six: "\<exists>stem d message.
         writes (onFileUpload (exampleEnv JNull) exampleObject) = [DeckSet (stem @ ''_failed'') d]
       \<and> deck_status d = ''failed'' \<and> deck_total_cards d = 0
       \<and> deck_error_message d = Some message"
  proof -
    have a: "aiRequests (onFileUpload (exampleEnv JNull) exampleObject)
               = [PostProcess ''Photosynthesis turns light into sugar.'' 15]"
      by (rule example_request)
    have b: "post (exampleEnv JNull)
               (PostProcess ''Photosynthesis turns light into sugar.'' 15) = Inr JNull"
      by (simp add: exampleEnv_def)
    have f: "\<forall>i d. firestoreSet (exampleEnv JNull) i d = None"
      by (simp add: exampleEnv_def)
    from C2_failure_paths [OF v, of "exampleEnv JNull"] a b f show ?thesis by blast
  qed
  have nm: "malformedBody JNull"
    by simp
  from v pv one two three m four five nm six show ?thesis by blast
qed

section \<open>Properties of the export\<close>

lemma replaceQuotes_doubled: "replaceQuotes s = doubled s"
  by (induction s) (auto simp: replaceQuotes_def)

lemma csvRow_quoted:
  "csvRow c =
     quoted (fc_question c) @ '','' @ quoted (fc_answer c) @ '','' @
     [DQUOTE] @ fc_type c @ [DQUOTE] @ '','' @
     [DQUOTE] @ (case fc_difficulty c of Some d \<Rightarrow> if d \<noteq> [] then d else ''medium''
                  | None \<Rightarrow> ''medium'') @ [DQUOTE]"
  by (simp add: csvRow_def quoted_def replaceQuotes_doubled strOr_def)

lemma claimCard_stored:
  "buildCardData index claimCard =
     Inr \<lparr> cd_id = JStr (''card_'' @ showNat (index + 1)), cd_type = JStr ''qa'',
           cd_question = JStr (''Q1'' @ [DQUOTE] @ ''x''), cd_answer = JStr ''A1'',
           cd_source_text = JStr ''Source text not available'',
           cd_difficulty = JStr ''medium'', cd_created_at = ServerTimestamp \<rparr>"
  by (simp add: claimCard_def buildCardData_object fieldOr_def)

lemma twoLineCard_stored:
  "buildCardData index twoLineCard =
     Inr \<lparr> cd_id = JStr (''card_'' @ showNat (index + 1)), cd_type = JStr ''qa'',
           cd_question = JStr ''Q3'',
           cd_answer = JStr (''first line'' @ [NEWLINE] @ ''second line''),
           cd_source_text = JStr ''Source text not available'',
           cd_difficulty = JStr ''medium'', cd_created_at = ServerTimestamp \<rparr>"
  by (simp add: twoLineCard_def buildCardData_object fieldOr_def)

text \<open>
  Claim C7. The general CSV export of a non-empty selection is the file whose content is
  the header \<^verbatim>\<open>Front,Back,Type,Difficulty\<close>, a newline, and one row per selected card, the
  rows joined by newlines. The row of a card is its question and its answer, each between
  double quotes with every embedded double quote doubled, then its type between double
  quotes, then its difficulty between double quotes, \<^verbatim>\<open>medium\<close> when the card has none.
  In particular the flashcard \<^verbatim>\<open>{question: "Q1\"x", answer: "A1"}\<close>, with no other field, is
  stored with the type \<^verbatim>\<open>qa\<close> and the difficulty \<^verbatim>\<open>medium\<close>, at any position of the
  response; the page reads it back as a card, and the export of that card alone has the
  single row \<^verbatim>\<open>"Q1""x","A1","qa","medium"\<close>.
\<close>

theorem C7_csv_export:
  assumes "filter (\<lambda>c. fc_id c \<in> selectedCards) cards = sel" and "sel \<noteq> []"
  shows "(\<exists>rows.
            handleExport title cards selectedCards Csv =
              DownloadFile (strOr title ''flashcards'' @ ''.csv'') ''text/csv''
                (''Front,Back,Type,Difficulty'' @ [NEWLINE] @ join [NEWLINE] rows)
          \<and> length rows = length sel
          \<and> (\<forall>i < length sel.
               rows ! i =
                 quoted (fc_question (sel ! i)) @ '','' @ quoted (fc_answer (sel ! i)) @ '','' @
                 [DQUOTE] @ fc_type (sel ! i) @ [DQUOTE] @ '','' @
                 [DQUOTE] @ (case fc_difficulty (sel ! i) of
                               Some d \<Rightarrow> if d \<noteq> [] then d else ''medium''
                             | None \<Rightarrow> ''medium'') @ [DQUOTE]))
       \<and> (\<exists>stored c.
            buildCardData index claimCard = Inr stored
          \<and> cardOfDocument stored = Some c
          \<and> handleExport title [c] {fc_id c} Csv =
              DownloadFile (strOr title ''flashcards'' @ ''.csv'') ''text/csv''
                (''Front,Back,Type,Difficulty'' @ [NEWLINE] @
                 [DQUOTE] @ ''Q1'' @ [DQUOTE, DQUOTE] @ ''x'' @ [DQUOTE] @ '','' @
                 [DQUOTE] @ ''A1'' @ [DQUOTE] @ '','' @
                 [DQUOTE] @ ''qa'' @ [DQUOTE] @ '','' @
                 [DQUOTE] @ ''medium'' @ [DQUOTE]))"
proof
  show "\<exists>rows.
            handleExport title cards selectedCards Csv =
              DownloadFile (strOr title ''flashcards'' @ ''.csv'') ''text/csv''
                (''Front,Back,Type,Difficulty'' @ [NEWLINE] @ join [NEWLINE] rows)
          \<and> length rows = length sel
          \<and> (\<forall>i < length sel.
               rows ! i =
                 quoted (fc_question (sel ! i)) @ '','' @ quoted (fc_answer (sel ! i)) @ '','' @
                 [DQUOTE] @ fc_type (sel ! i) @ [DQUOTE] @ '','' @
                 [DQUOTE] @ (case fc_difficulty (sel ! i) of
                               Some d \<Rightarrow> if d \<noteq> [] then d else ''medium''
                             | None \<Rightarrow> ''medium'') @ [DQUOTE])"
  proof (intro exI conjI)
    show "handleExport title cards selectedCards Csv =
            DownloadFile (strOr title ''flashcards'' @ ''.csv'') ''text/csv''
              (''Front,Back,Type,Difficulty'' @ [NEWLINE] @ join [NEWLINE] (map csvRow sel))"
      using assms by (simp add: handleExport_def)
    show "length (map csvRow sel) = length sel"
      by simp
    show "\<forall>i < length sel.
            map csvRow sel ! i =
              quoted (fc_question (sel ! i)) @ '','' @ quoted (fc_answer (sel ! i)) @ '','' @
              [DQUOTE] @ fc_type (sel ! i) @ [DQUOTE] @ '','' @
              [DQUOTE] @ (case fc_difficulty (sel ! i) of
                            Some d \<Rightarrow> if d \<noteq> [] then d else ''medium''
                          | None \<Rightarrow> ''medium'') @ [DQUOTE]"
      by (simp add: csvRow_quoted)
  qed
next
  let ?c = "\<lparr> fc_id = ''card_'' @ showNat (index + 1), fc_type = ''qa'',
               fc_question = ''Q1'' @ [DQUOTE] @ ''x'', fc_answer = ''A1'',
               fc_source_text = Some ''Source text not available'',
               fc_difficulty = Some ''medium'' \<rparr>"
  obtain stored where s: "buildCardData index claimCard = Inr stored"
    and c: "cardOfDocument stored = Some ?c"
    by (simp add: claimCard_stored cardOfDocument_def)
  have "handleExport title [?c] {fc_id ?c} Csv =
          DownloadFile (strOr title ''flashcards'' @ ''.csv'') ''text/csv''
            (''Front,Back,Type,Difficulty'' @ [NEWLINE] @
             [DQUOTE] @ ''Q1'' @ [DQUOTE, DQUOTE] @ ''x'' @ [DQUOTE] @ '','' @
             [DQUOTE] @ ''A1'' @ [DQUOTE] @ '','' @
             [DQUOTE] @ ''qa'' @ [DQUOTE] @ '','' @
             [DQUOTE] @ ''medium'' @ [DQUOTE])"
    by (simp add: handleExport_def csvRow_def replaceQuotes_def strOr_def)
  with s c show "\<exists>stored c.
            buildCardData index claimCard = Inr stored
          \<and> cardOfDocument stored = Some c
          \<and> handleExport title [c] {fc_id c} Csv =
              DownloadFile (strOr title ''flashcards'' @ ''.csv'') ''text/csv''
                (''Front,Back,Type,Difficulty'' @ [NEWLINE] @
                 [DQUOTE] @ ''Q1'' @ [DQUOTE, DQUOTE] @ ''x'' @ [DQUOTE] @ '','' @
                 [DQUOTE] @ ''A1'' @ [DQUOTE] @ '','' @
                 [DQUOTE] @ ''qa'' @ [DQUOTE] @ '','' @
                 [DQUOTE] @ ''medium'' @ [DQUOTE])"
    by blast
qed

text \<open>Two cards of a deck, both selected, and the card of the claim stored as the first
  card of a response.\<close>

theorem C7_csv_export_witness:
  "filter (\<lambda>c. fc_id c \<in> {''card_1'', ''card_2''}) [cardQ1, cardQ2] = [cardQ1, cardQ2]
   \<and> handleExport (Some ''Biology'') [cardQ1, cardQ2] {''card_1'', ''card_2''} Csv =
       DownloadFile ''Biology.csv'' ''text/csv''
         (''Front,Back,Type,Difficulty'' @ [NEWLINE] @
          [DQUOTE] @ ''Q1'' @ [DQUOTE, DQUOTE] @ ''x'' @ [DQUOTE] @ '','' @
          [DQUOTE] @ ''A1'' @ [DQUOTE] @ '','' @
          [DQUOTE] @ ''qa'' @ [DQUOTE] @ '','' @
          [DQUOTE] @ ''medium'' @ [DQUOTE] @ [NEWLINE] @
          [DQUOTE] @ ''Q2'' @ [DQUOTE] @ '','' @
          [DQUOTE] @ ''A2'' @ [DQUOTE] @ '','' @
          [DQUOTE] @ ''cloze'' @ [DQUOTE] @ '','' @
          [DQUOTE] @ ''hard'' @ [DQUOTE])
   \<and> (\<exists>stored c.
         buildCardData 0 claimCard = Inr stored
       \<and> cardOfDocument stored = Some c
       \<and> fc_id c = ''card_1''
       \<and> handleExport (Some ''Biology'') [c] {fc_id c} Csv =
           DownloadFile ''Biology.csv'' ''text/csv''
             (''Front,Back,Type,Difficulty'' @ [NEWLINE] @
              [DQUOTE] @ ''Q1'' @ [DQUOTE, DQUOTE] @ ''x'' @ [DQUOTE] @ '','' @
              [DQUOTE] @ ''A1'' @ [DQUOTE] @ '','' @
              [DQUOTE] @ ''qa'' @ [DQUOTE] @ '','' @
              [DQUOTE] @ ''medium'' @ [DQUOTE]))"
proof -
  have sel: "filter (\<lambda>c. fc_id c \<in> {''card_1'', ''card_2''}) [cardQ1, cardQ2] = [cardQ1, cardQ2]"
    by (simp add: cardQ1_def cardQ2_def)
  have ne: "[cardQ1, cardQ2] \<noteq> []"
    by simp
  note export = C7_csv_export [OF sel ne, of "Some ''Biology''" 0]
  from export obtain rows where
    r: "handleExport (Some ''Biology'') [cardQ1, cardQ2] {''card_1'', ''card_2''} Csv =
          DownloadFile (strOr (Some ''Biology'') ''flashcards'' @ ''.csv'') ''text/csv''
            (''Front,Back,Type,Difficulty'' @ [NEWLINE] @ join [NEWLINE] rows)"
    and l: "length rows = length [cardQ1, cardQ2]"
    and n: "\<forall>i < length [cardQ1, cardQ2].
              rows ! i =
                quoted (fc_question ([cardQ1, cardQ2] ! i)) @ '','' @
                quoted (fc_answer ([cardQ1, cardQ2] ! i)) @ '','' @
                [DQUOTE] @ fc_type ([cardQ1, cardQ2] ! i) @ [DQUOTE] @ '','' @
                [DQUOTE] @ (case fc_difficulty ([cardQ1, cardQ2] ! i) of
                              Some d \<Rightarrow> if d \<noteq> [] then d else ''medium''
                            | None \<Rightarrow> ''medium'') @ [DQUOTE]"
    by blast
  from l obtain row1 row2 where rows: "rows = [row1, row2]"
    by (cases rows; cases "tl rows") auto
  from n have "rows ! 0 = [DQUOTE] @ ''Q1'' @ [DQUOTE, DQUOTE] @ ''x'' @ [DQUOTE] @ '','' @
          [DQUOTE] @ ''A1'' @ [DQUOTE] @ '','' @
          [DQUOTE] @ ''qa'' @ [DQUOTE] @ '','' @
          [DQUOTE] @ ''medium'' @ [DQUOTE]"
    by (simp add: cardQ1_def quoted_def)
  then have r1: "row1 = [DQUOTE] @ ''Q1'' @ [DQUOTE, DQUOTE] @ ''x'' @ [DQUOTE] @ '','' @
          [DQUOTE] @ ''A1'' @ [DQUOTE] @ '','' @
          [DQUOTE] @ ''qa'' @ [DQUOTE] @ '','' @
          [DQUOTE] @ ''medium'' @ [DQUOTE]"
    by (simp add: rows)
  from n have "rows ! 1 = [DQUOTE] @ ''Q2'' @ [DQUOTE] @ '','' @
          [DQUOTE] @ ''A2'' @ [DQUOTE] @ '','' @
          [DQUOTE] @ ''cloze'' @ [DQUOTE] @ '','' @
          [DQUOTE] @ ''hard'' @ [DQUOTE]"
    by (simp add: cardQ2_def quoted_def)
  then have r2: "row2 = [DQUOTE] @ ''Q2'' @ [DQUOTE] @ '','' @
          [DQUOTE] @ ''A2'' @ [DQUOTE] @ '','' @
          [DQUOTE] @ ''cloze'' @ [DQUOTE] @ '','' @
          [DQUOTE] @ ''hard'' @ [DQUOTE]"
    by (simp add: rows)
  have first: "handleExport (Some ''Biology'') [cardQ1, cardQ2] {''card_1'', ''card_2''} Csv =
       DownloadFile ''Biology.csv'' ''text/csv''
         (''Front,Back,Type,Difficulty'' @ [NEWLINE] @
          [DQUOTE] @ ''Q1'' @ [DQUOTE, DQUOTE] @ ''x'' @ [DQUOTE] @ '','' @
          [DQUOTE] @ ''A1'' @ [DQUOTE] @ '','' @
          [DQUOTE] @ ''qa'' @ [DQUOTE] @ '','' @
          [DQUOTE] @ ''medium'' @ [DQUOTE] @ [NEWLINE] @
          [DQUOTE] @ ''Q2'' @ [DQUOTE] @ '','' @
          [DQUOTE] @ ''A2'' @ [DQUOTE] @ '','' @
          [DQUOTE] @ ''cloze'' @ [DQUOTE] @ '','' @
          [DQUOTE] @ ''hard'' @ [DQUOTE])"
    using r by (simp add: rows r1 r2 strOr_def)
  from export obtain stored c where
    s: "buildCardData 0 claimCard = Inr stored"
    and c: "cardOfDocument stored = Some c"
    and e: "handleExport (Some ''Biology'') [c] {fc_id c} Csv =
              DownloadFile (strOr (Some ''Biology'') ''flashcards'' @ ''.csv'') ''text/csv''
                (''Front,Back,Type,Difficulty'' @ [NEWLINE] @
                 [DQUOTE] @ ''Q1'' @ [DQUOTE, DQUOTE] @ ''x'' @ [DQUOTE] @ '','' @
                 [DQUOTE] @ ''A1'' @ [DQUOTE] @ '','' @
                 [DQUOTE] @ ''qa'' @ [DQUOTE] @ '','' @
                 [DQUOTE] @ ''medium'' @ [DQUOTE])"
    by blast
  have i: "fc_id c = ''card_1''"
    using s c by (auto simp: claimCard_stored cardOfDocument_def showNat.simps)
  have e': "handleExport (Some ''Biology'') [c] {fc_id c} Csv =
              DownloadFile ''Biology.csv'' ''text/csv''
                (''Front,Back,Type,Difficulty'' @ [NEWLINE] @
                 [DQUOTE] @ ''Q1'' @ [DQUOTE, DQUOTE] @ ''x'' @ [DQUOTE] @ '','' @
                 [DQUOTE] @ ''A1'' @ [DQUOTE] @ '','' @
                 [DQUOTE] @ ''qa'' @ [DQUOTE] @ '','' @
                 [DQUOTE] @ ''medium'' @ [DQUOTE])"
    using e by (simp add: strOr_def)
  from sel first s c i e' show ?thesis by blast
qed

text \<open>
  Claim C8, as the code has it. The Quizlet-text export of two selected cards is the file
  whose content is the first card's question, a tab, its answer, a newline, then the second
  card's question, a tab and its answer: nothing before, so no header. When no question or
  answer holds a newline, the content read line by line is exactly these two lines.
\<close>

theorem C8_quizlet_txt_two_lines:
  assumes "filter (\<lambda>c. fc_id c \<in> selectedCards) cards = [c1, c2]"
  shows "handleExport title cards selectedCards QuizletTxt =
           DownloadFile (strOr title ''flashcards'' @ ''.txt'') ''text/plain''
             ((fc_question c1 @ [TAB] @ fc_answer c1) @ [NEWLINE]
                @ (fc_question c2 @ [TAB] @ fc_answer c2))
         \<and> (NEWLINE \<notin> set (fc_question c1 @ fc_answer c1 @ fc_question c2 @ fc_answer c2) \<longrightarrow>
              split NEWLINE ((fc_question c1 @ [TAB] @ fc_answer c1) @ [NEWLINE]
                @ (fc_question c2 @ [TAB] @ fc_answer c2))
              = [fc_question c1 @ [TAB] @ fc_answer c1, fc_question c2 @ [TAB] @ fc_answer c2])"
proof
  show "handleExport title cards selectedCards QuizletTxt =
           DownloadFile (strOr title ''flashcards'' @ ''.txt'') ''text/plain''
             ((fc_question c1 @ [TAB] @ fc_answer c1) @ [NEWLINE]
                @ (fc_question c2 @ [TAB] @ fc_answer c2))"
    using assms by (simp add: handleExport_def quizletTxtRow_def)
next
  show "NEWLINE \<notin> set (fc_question c1 @ fc_answer c1 @ fc_question c2 @ fc_answer c2) \<longrightarrow>
              split NEWLINE ((fc_question c1 @ [TAB] @ fc_answer c1) @ [NEWLINE]
                @ (fc_question c2 @ [TAB] @ fc_answer c2))
              = [fc_question c1 @ [TAB] @ fc_answer c1, fc_question c2 @ [TAB] @ fc_answer c2]"
  proof
    assume h: "NEWLINE \<notin> set (fc_question c1 @ fc_answer c1 @ fc_question c2 @ fc_answer c2)"
    have a: "NEWLINE \<notin> set (fc_question c1 @ [TAB] @ fc_answer c1)" using h by simp
    have b: "NEWLINE \<notin> set (fc_question c2 @ [TAB] @ fc_answer c2)" using h by simp
    show "split NEWLINE ((fc_question c1 @ [TAB] @ fc_answer c1) @ [NEWLINE]
                @ (fc_question c2 @ [TAB] @ fc_answer c2))
              = [fc_question c1 @ [TAB] @ fc_answer c1, fc_question c2 @ [TAB] @ fc_answer c2]"
      using split_at_sep [OF a, of "fc_question c2 @ [TAB] @ fc_answer c2"] split_no_sep [OF b]
      by simp
  qed
qed

theorem C8_quizlet_txt_witness:
  "filter (\<lambda>c. fc_id c \<in> {''card_1'', ''card_2''}) [cardQ1, cardQ2] = [cardQ1, cardQ2]
   \<and> handleExport (Some ''Biology'') [cardQ1, cardQ2] {''card_1'', ''card_2''} QuizletTxt =
     DownloadFile ''Biology.txt'' ''text/plain''
       (''Q1'' @ [DQUOTE] @ ''x'' @ [TAB] @ ''A1'' @ [NEWLINE] @ ''Q2'' @ [TAB] @ ''A2'')
   \<and> split NEWLINE (''Q1'' @ [DQUOTE] @ ''x'' @ [TAB] @ ''A1'' @ [NEWLINE] @ ''Q2'' @ [TAB] @ ''A2'')
       = [''Q1'' @ [DQUOTE] @ ''x'' @ [TAB] @ ''A1'', ''Q2'' @ [TAB] @ ''A2'']"
proof -
  have sel: "filter (\<lambda>c. fc_id c \<in> {''card_1'', ''card_2''}) [cardQ1, cardQ2] = [cardQ1, cardQ2]"
    by (simp add: cardQ1_def cardQ2_def)
  show ?thesis
    using sel C8_quizlet_txt_two_lines [OF sel, of "Some ''Biology''"]
    by (simp add: cardQ1_def cardQ2_def strOr_def)
qed

text \<open>Claim C8 as written fails when an answer holds a newline, which the export does not
  escape: the flashcard with the answer \<^verbatim>\<open>first line\<close>, newline, \<^verbatim>\<open>second line\<close> is stored
  and read back as it is, and the export of that card and one other has three lines.\<close>

theorem C8_newline_three_lines_counterexample:
  "(\<exists>stored c.
      buildCardData 2 twoLineCard = Inr stored
    \<and> cardOfDocument stored = Some c
    \<and> filter (\<lambda>c. fc_id c \<in> {''card_1'', ''card_3''}) [cardQ1, c] = [cardQ1, c]
    \<and> handleExport (Some ''Biology'') [cardQ1, c] {''card_1'', ''card_3''} QuizletTxt =
        DownloadFile ''Biology.txt'' ''text/plain''
          (''Q1'' @ [DQUOTE] @ ''x'' @ [TAB] @ ''A1'' @ [NEWLINE]
             @ ''Q3'' @ [TAB] @ ''first line'' @ [NEWLINE] @ ''second line''))
   \<and> split NEWLINE (''Q1'' @ [DQUOTE] @ ''x'' @ [TAB] @ ''A1'' @ [NEWLINE]
            @ ''Q3'' @ [TAB] @ ''first line'' @ [NEWLINE] @ ''second line'')
       = [''Q1'' @ [DQUOTE] @ ''x'' @ [TAB] @ ''A1'', ''Q3'' @ [TAB] @ ''first line'',
          ''second line'']
   \<and> length (split NEWLINE (''Q1'' @ [DQUOTE] @ ''x'' @ [TAB] @ ''A1'' @ [NEWLINE]
            @ ''Q3'' @ [TAB] @ ''first line'' @ [NEWLINE] @ ''second line'')) = 3"
  by (simp add: twoLineCard_stored cardOfDocument_def cardQ1_def showNat.simps
        handleExport_def quizletTxtRow_def strOr_def)

end
